theory Spec2Isabelle
  imports Complex_Main "HOL-Library.Multiset" "HOL-Library.Sublist"
    "HOL-Library.Char_ord" "HOL-Library.List_Lexorder"
begin

section \<open>Data model (types.ts)\<close>

text \<open>
  The enumerations of \<^verbatim>\<open>types.ts\<close>. Each TypeScript enum member is a string; the
  functions \<open>tierValue\<close> and \<open>typeValue\<close> give the string of a member, as
  \<^verbatim>\<open>LootTier.BRONZE = "Bronze"\<close> does.
\<close>

datatype LootTier = BRONZE | SILVER | GOLD | PLATINUM | LEGENDARY | CELESTIAL

datatype ItemType = WEAPON | ARMOR | ACCESSORY | CONSUMABLE | MATERIAL | RUNE | ARTIFACT

fun tierValue :: "LootTier \<Rightarrow> string" where
  "tierValue BRONZE = ''Bronze''"
| "tierValue SILVER = ''Silver''"
| "tierValue GOLD = ''Gold''"
| "tierValue PLATINUM = ''Platinum''"
| "tierValue LEGENDARY = ''Legendary''"
| "tierValue CELESTIAL = ''Celestial''"

fun typeValue :: "ItemType \<Rightarrow> string" where
  "typeValue WEAPON = ''Weapon''"
| "typeValue ARMOR = ''Armor''"
| "typeValue ACCESSORY = ''Accessory''"
| "typeValue CONSUMABLE = ''Consumable''"
| "typeValue MATERIAL = ''Material''"
| "typeValue RUNE = ''Rune''"
| "typeValue ARTIFACT = ''Artifact''"

definition allTiers :: "LootTier list" where
  "allTiers = [BRONZE, SILVER, GOLD, PLATINUM, LEGENDARY, CELESTIAL]"

definition allTypes :: "ItemType list" where
  "allTypes = [WEAPON, ARMOR, ACCESSORY, CONSUMABLE, MATERIAL, RUNE, ARTIFACT]"

text \<open>The position of a tier in the declaration order Bronze .. Celestial.\<close>

fun tierRank :: "LootTier \<Rightarrow> nat" where
  "tierRank BRONZE = 0"
| "tierRank SILVER = 1"
| "tierRank GOLD = 2"
| "tierRank PLATINUM = 3"
| "tierRank LEGENDARY = 4"
| "tierRank CELESTIAL = 5"

definition WeaponSubType :: "string list" where
  "WeaponSubType = [''Sword'', ''Axe'', ''Mace'', ''Dagger'', ''Bow'', ''Crossbow'',
     ''Staff'', ''Wand'', ''Spear'', ''Hammer'', ''Shield'']"

definition ArmorSubType :: "string list" where
  "ArmorSubType = [''Helmet'', ''Chestpiece'', ''Leggings'', ''Boots'', ''Gloves'',
     ''Cloak'', ''Greaves'', ''Pauldrons'', ''Bracers'']"

definition AccessorySubType :: "string list" where
  "AccessorySubType = [''Ring'', ''Amulet'', ''Earrings'', ''Brooch'', ''Pendant'']"

definition ConsumableSubType :: "string list" where
  "ConsumableSubType = [''Potion'', ''Scroll'', ''Food'', ''Elixir'', ''Tome'']"

definition MaterialSubType :: "string list" where
  "MaterialSubType = [''Ore'', ''Gem'', ''Essence'', ''Crystal'', ''Herb'']"

text \<open>
  JavaScript values, as far as the pipeline handles them: what \<^verbatim>\<open>JSON.parse\<close>
  returns, plus \<^verbatim>\<open>undefined\<close>. Numbers are modelled as exact reals (no NaN, no
  infinities, no rounding of the binary representation). An object is the list of its
  properties; a lookup takes the first binding of a key, so the spread
  \<^verbatim>\<open>{...a, ...b}\<close> is the properties of \<open>b\<close> followed by those of \<open>a\<close>.
\<close>

datatype jv =
    JUndefined
  | JNull
  | JBool bool
  | JNum real
  | JStr string
  | JArr "jv list"
  | JObj "(string \<times> jv) list"

text \<open>The own properties that a spread copies (the index keys of a string or an array
  are never read by name and are left out).\<close>

fun ownProps :: "jv \<Rightarrow> (string \<times> jv) list" where
  "ownProps (JObj kvs) = kvs"
| "ownProps v = []"

text \<open>Property access \<^verbatim>\<open>v.k\<close> on a value that is neither null nor undefined.\<close>

definition getProp :: "jv \<Rightarrow> string \<Rightarrow> jv" where
  "getProp v k = (case map_of (ownProps v) k of Some x \<Rightarrow> x | None \<Rightarrow> JUndefined)"

text \<open>JavaScript truthiness, as used by \<^verbatim>\<open>||\<close> and \<^verbatim>\<open>if\<close>.\<close>

fun truthy :: "jv \<Rightarrow> bool" where
  "truthy JUndefined = False"
| "truthy JNull = False"
| "truthy (JBool b) = b"
| "truthy (JNum x) = (x \<noteq> 0)"
| "truthy (JStr s) = (s \<noteq> [])"
| "truthy (JArr xs) = True"
| "truthy (JObj kvs) = True"

text \<open>An optional string field of a TypeScript interface, read as a JavaScript value.\<close>

fun optStr :: "string option \<Rightarrow> jv" where
  "optStr None = JUndefined"
| "optStr (Some s) = JStr s"

record MagicalProperty =
  mp_name :: string
  mp_description :: string
  magnitude :: "real option"

record LootItem =
  name :: string
  type :: ItemType
  subType :: string
  tier :: LootTier
  description :: string
  stats :: jv
  magicalProperties :: "MagicalProperty list option"
  lore :: "string option"
  setName :: "string option"
  rarity :: real

record DatabaseItem = LootItem +
  id_row :: nat
  createdAt :: string
  hash :: string

record GenerationOptions =
  opt_tier :: LootTier
  opt_count :: int
  opt_itemType :: "ItemType option"
  opt_subType :: "string option"
  opt_setName :: "string option"
  opt_model :: "string option"

section \<open>Stat range tables (loot-generator.ts)\<close>

record range =
  rmin :: real
  rmax :: real

definition mk :: "real \<Rightarrow> real \<Rightarrow> range" where
  "mk a b = \<lparr>rmin = a, rmax = b\<rparr>"

fun getTierMultiplier :: "LootTier \<Rightarrow> real" where
  "getTierMultiplier BRONZE = 1"
| "getTierMultiplier SILVER = 1.5"
| "getTierMultiplier GOLD = 2"
| "getTierMultiplier PLATINUM = 3"
| "getTierMultiplier LEGENDARY = 5"
| "getTierMultiplier CELESTIAL = 10"

fun getWeaponStatRanges :: "LootTier \<Rightarrow> (string \<times> range) list" where
  "getWeaponStatRanges BRONZE =
    [(''damage'', mk 8 15), (''attackSpeed'', mk (-10) 10), (''criticalChance'', mk 2 6),
     (''criticalDamage'', mk 150 180), (''range'', mk 1 3), (''accuracy'', mk (-5) 5),
     (''durability'', mk 50 100), (''weight'', mk 1.0 4.0), (''value'', mk 50 150)]"
| "getWeaponStatRanges SILVER =
    [(''damage'', mk 12 22), (''attackSpeed'', mk (-5) 20), (''criticalChance'', mk 4 10),
     (''criticalDamage'', mk 160 200), (''range'', mk 1 4), (''accuracy'', mk (-3) 8),
     (''durability'', mk 80 140), (''weight'', mk 0.8 4.5), (''value'', mk 100 300)]"
| "getWeaponStatRanges GOLD =
    [(''damage'', mk 18 35), (''attackSpeed'', mk 0 30), (''criticalChance'', mk 6 15),
     (''criticalDamage'', mk 180 230), (''range'', mk 1 5), (''accuracy'', mk 0 12),
     (''durability'', mk 120 200), (''weight'', mk 0.6 5.0), (''value'', mk 200 600)]"
| "getWeaponStatRanges PLATINUM =
    [(''damage'', mk 30 55), (''attackSpeed'', mk 5 45), (''criticalChance'', mk 10 22),
     (''criticalDamage'', mk 200 280), (''range'', mk 2 7), (''accuracy'', mk 5 18),
     (''durability'', mk 180 280), (''weight'', mk 0.4 6.0), (''value'', mk 400 1200)]"
| "getWeaponStatRanges LEGENDARY =
    [(''damage'', mk 45 85), (''attackSpeed'', mk 15 65), (''criticalChance'', mk 18 35),
     (''criticalDamage'', mk 250 350), (''range'', mk 3 10), (''accuracy'', mk 10 25),
     (''durability'', mk 250 400), (''weight'', mk 0.3 7.0), (''value'', mk 800 2500)]"
| "getWeaponStatRanges CELESTIAL =
    [(''damage'', mk 75 150), (''attackSpeed'', mk 30 100), (''criticalChance'', mk 25 50),
     (''criticalDamage'', mk 300 500), (''range'', mk 5 15), (''accuracy'', mk 20 40),
     (''durability'', mk 350 600), (''weight'', mk 0.2 8.0), (''value'', mk 1500 5000)]"

fun getArmorStatRanges :: "LootTier \<Rightarrow> (string \<times> range) list" where
  "getArmorStatRanges BRONZE =
    [(''defense'', mk 3 8), (''magicResistance'', mk 2 8), (''elementalResistance'', mk 1 5),
     (''durability'', mk 60 120), (''weight'', mk 2.0 15.0), (''value'', mk 40 120)]"
| "getArmorStatRanges SILVER =
    [(''defense'', mk 6 15), (''magicResistance'', mk 5 12), (''elementalResistance'', mk 3 8),
     (''durability'', mk 100 180), (''weight'', mk 1.8 16.0), (''value'', mk 80 250)]"
| "getArmorStatRanges GOLD =
    [(''defense'', mk 12 25), (''magicResistance'', mk 8 18), (''elementalResistance'', mk 5 12),
     (''durability'', mk 150 250), (''weight'', mk 1.5 18.0), (''value'', mk 150 500)]"
| "getArmorStatRanges PLATINUM =
    [(''defense'', mk 20 40), (''magicResistance'', mk 15 28), (''elementalResistance'', mk 8 18),
     (''durability'', mk 220 350), (''weight'', mk 1.2 20.0), (''value'', mk 300 1000)]"
| "getArmorStatRanges LEGENDARY =
    [(''defense'', mk 35 65), (''magicResistance'', mk 25 45), (''elementalResistance'', mk 15 30),
     (''durability'', mk 300 500), (''weight'', mk 1.0 25.0), (''value'', mk 600 2000)]"
| "getArmorStatRanges CELESTIAL =
    [(''defense'', mk 55 120), (''magicResistance'', mk 40 80), (''elementalResistance'', mk 25 50),
     (''durability'', mk 450 800), (''weight'', mk 0.8 30.0), (''value'', mk 1200 4000)]"

fun getAccessoryStatRanges :: "LootTier \<Rightarrow> (string \<times> range) list" where
  "getAccessoryStatRanges BRONZE =
    [(''health'', mk 10 30), (''mana'', mk 8 25), (''stamina'', mk 5 15),
     (''attributes'', mk 1 2), (''luck'', mk 1 3), (''durability'', mk 30 80),
     (''weight'', mk 0.1 1.0), (''value'', mk 80 200)]"
| "getAccessoryStatRanges SILVER =
    [(''health'', mk 25 50), (''mana'', mk 20 40), (''stamina'', mk 12 25),
     (''attributes'', mk 1 3), (''luck'', mk 2 5), (''durability'', mk 60 120),
     (''weight'', mk 0.1 1.2), (''value'', mk 150 400)]"
| "getAccessoryStatRanges GOLD =
    [(''health'', mk 40 80), (''mana'', mk 35 65), (''stamina'', mk 20 40),
     (''attributes'', mk 2 4), (''luck'', mk 3 7), (''durability'', mk 100 180),
     (''weight'', mk 0.1 1.5), (''value'', mk 300 800)]"
| "getAccessoryStatRanges PLATINUM =
    [(''health'', mk 70 130), (''mana'', mk 60 100), (''stamina'', mk 35 65),
     (''attributes'', mk 3 6), (''luck'', mk 5 10), (''durability'', mk 150 250),
     (''weight'', mk 0.1 2.0), (''value'', mk 600 1500)]"
| "getAccessoryStatRanges LEGENDARY =
    [(''health'', mk 120 220), (''mana'', mk 100 180), (''stamina'', mk 60 110),
     (''attributes'', mk 5 10), (''luck'', mk 8 15), (''durability'', mk 220 350),
     (''weight'', mk 0.1 2.5), (''value'', mk 1200 3000)]"
| "getAccessoryStatRanges CELESTIAL =
    [(''health'', mk 200 400), (''mana'', mk 180 350), (''stamina'', mk 100 200),
     (''attributes'', mk 8 20), (''luck'', mk 12 25), (''durability'', mk 300 500),
     (''weight'', mk 0.1 3.0), (''value'', mk 2500 6000)]"

fun getConsumableStatRanges :: "LootTier \<Rightarrow> (string \<times> range) list" where
  "getConsumableStatRanges BRONZE =
    [(''healingPower'', mk 25 60), (''manaPower'', mk 15 40), (''duration'', mk 30 120),
     (''stackSize'', mk 10 50), (''value'', mk 5 25)]"
| "getConsumableStatRanges SILVER =
    [(''healingPower'', mk 50 100), (''manaPower'', mk 35 75), (''duration'', mk 60 180),
     (''stackSize'', mk 15 75), (''value'', mk 15 50)]"
| "getConsumableStatRanges GOLD =
    [(''healingPower'', mk 85 160), (''manaPower'', mk 65 120), (''duration'', mk 120 300),
     (''stackSize'', mk 20 99), (''value'', mk 30 100)]"
| "getConsumableStatRanges PLATINUM =
    [(''healingPower'', mk 140 250), (''manaPower'', mk 110 200), (''duration'', mk 180 450),
     (''stackSize'', mk 25 99), (''value'', mk 60 200)]"
| "getConsumableStatRanges LEGENDARY =
    [(''healingPower'', mk 220 400), (''manaPower'', mk 180 350), (''duration'', mk 300 600),
     (''stackSize'', mk 30 99), (''value'', mk 120 400)]"
| "getConsumableStatRanges CELESTIAL =
    [(''healingPower'', mk 350 750), (''manaPower'', mk 300 600), (''duration'', mk 450 900),
     (''stackSize'', mk 50 99), (''value'', mk 250 800)]"

fun getMaterialStatRanges :: "LootTier \<Rightarrow> (string \<times> range) list" where
  "getMaterialStatRanges BRONZE =
    [(''purity'', mk 60 75), (''stackSize'', mk 50 200), (''craftingBonus'', mk 2 8),
     (''value'', mk 2 10)]"
| "getMaterialStatRanges SILVER =
    [(''purity'', mk 70 82), (''stackSize'', mk 100 300), (''craftingBonus'', mk 5 12),
     (''value'', mk 5 20)]"
| "getMaterialStatRanges GOLD =
    [(''purity'', mk 78 88), (''stackSize'', mk 150 500), (''craftingBonus'', mk 8 18),
     (''value'', mk 10 40)]"
| "getMaterialStatRanges PLATINUM =
    [(''purity'', mk 85 93), (''stackSize'', mk 200 750), (''craftingBonus'', mk 12 25),
     (''value'', mk 20 80)]"
| "getMaterialStatRanges LEGENDARY =
    [(''purity'', mk 90 97), (''stackSize'', mk 300 999), (''craftingBonus'', mk 20 35),
     (''value'', mk 40 150)]"
| "getMaterialStatRanges CELESTIAL =
    [(''purity'', mk 95 99), (''stackSize'', mk 500 999), (''craftingBonus'', mk 30 50),
     (''value'', mk 80 300)]"

text \<open>The range table of an item type: the five stat-bearing types have one, Rune and
  Artifact have none.\<close>

fun statRanges :: "ItemType \<Rightarrow> LootTier \<Rightarrow> (string \<times> range) list" where
  "statRanges WEAPON t = getWeaponStatRanges t"
| "statRanges ARMOR t = getArmorStatRanges t"
| "statRanges ACCESSORY t = getAccessoryStatRanges t"
| "statRanges CONSUMABLE t = getConsumableStatRanges t"
| "statRanges MATERIAL t = getMaterialStatRanges t"
| "statRanges RUNE t = []"
| "statRanges ARTIFACT t = []"

text \<open>\<^verbatim>\<open>ranges.damage\<close>: the range a table binds to a stat name. Every name the
  generator reads is bound in its table; the default is never reached.\<close>

definition rangeOf :: "(string \<times> range) list \<Rightarrow> string \<Rightarrow> range" where
  "rangeOf tbl k = (case map_of tbl k of Some r \<Rightarrow> r | None \<Rightarrow> mk 0 0)"

fun getRarityRange :: "LootTier \<Rightarrow> range" where
  "getRarityRange BRONZE = mk 5 25"
| "getRarityRange SILVER = mk 20 40"
| "getRarityRange GOLD = mk 35 60"
| "getRarityRange PLATINUM = mk 55 75"
| "getRarityRange LEGENDARY = mk 70 90"
| "getRarityRange CELESTIAL = mk 85 100"

text \<open>
  The monotonicity check of one stat table between two tiers: every stat of the lower
  tier that the higher tier also has, has there a min and a max at least as large.
\<close>

definition nonDecreasing :: "(string \<times> range) list \<Rightarrow> (string \<times> range) list \<Rightarrow> bool" where
  "nonDecreasing lower higher =
     list_all (\<lambda>(k, r). case map_of higher k of
                 None \<Rightarrow> True
               | Some r' \<Rightarrow> rmin r \<le> rmin r' \<and> rmax r \<le> rmax r') lower"

text \<open>The same check with the weight stat's min bound read in the other direction.\<close>

definition scalesWithTier :: "(string \<times> range) list \<Rightarrow> (string \<times> range) list \<Rightarrow> bool" where
  "scalesWithTier lower higher =
     list_all (\<lambda>(k, r). case map_of higher k of
                 None \<Rightarrow> True
               | Some r' \<Rightarrow> rmax r \<le> rmax r' \<and>
                   (if k = ''weight'' then rmin r' \<le> rmin r else rmin r \<le> rmin r')) lower"

section \<open>Randomness and the text-generation service\<close>

text \<open>
  The two sources of non-determinism are made explicit. \<open>random\<close> is the sequence of
  values that \<^verbatim>\<open>Math.random()\<close> returns, in call order, and \<open>drawn\<close> counts the calls
  made so far. \<open>service\<close> is the outcome of each \<^verbatim>\<open>ollama.chat\<close> call followed by
  \<^verbatim>\<open>JSON.parse\<close> of its content, in call order, and \<open>calls\<close> counts the calls made
  so far: the call is rejected, or its content is not JSON, or it parses to a value.
\<close>

datatype response = Rejected | Malformed | Parsed jv

record world =
  random :: "nat \<Rightarrow> real"
  drawn :: nat
  service :: "nat \<Rightarrow> response"
  calls :: nat

definition Math_random :: "world \<Rightarrow> real \<times> world" where
  "Math_random w = (random w (drawn w), w\<lparr>drawn := Suc (drawn w)\<rparr>)"

text \<open>\<^verbatim>\<open>Math.round\<close> is \<open>round\<close>: the floor of \<open>x + 1/2\<close>.\<close>

definition randomInRange :: "range \<Rightarrow> world \<Rightarrow> real \<times> world" where
  "randomInRange rg w =
     (let (r, w') = Math_random w
      in (real_of_int (round ((r * (rmax rg - rmin rg) + rmin rg) * 100)) / 100, w'))"

text \<open>
  The properties of an object literal whose values are \<^verbatim>\<open>randomInRange\<close> calls, in
  source order; the flag says whether the call is wrapped in \<^verbatim>\<open>Math.round\<close>.
\<close>

fun rollStats :: "(string \<times> range \<times> bool) list \<Rightarrow> world \<Rightarrow> (string \<times> jv) list \<times> world" where
  "rollStats [] w = ([], w)"
| "rollStats ((k, rg, rounded) # fs) w =
     (let (x, w') = randomInRange rg w;
          v = (if rounded then real_of_int (round x) else x);
          (rest, w'') = rollStats fs w'
      in ((k, JNum v) # rest, w''))"

definition generateStatsForType :: "jv \<Rightarrow> LootTier \<Rightarrow> world \<Rightarrow> (string \<times> jv) list \<times> world" where
  "generateStatsForType itemType t w =
    (if itemType = JStr (typeValue WEAPON) then
       (let weaponRanges = getWeaponStatRanges t in rollStats
         [(''damage'', rangeOf weaponRanges ''damage'', True),
          (''attackSpeed'', rangeOf weaponRanges ''attackSpeed'', True),
          (''criticalChance'', rangeOf weaponRanges ''criticalChance'', True),
          (''criticalDamage'', rangeOf weaponRanges ''criticalDamage'', True),
          (''range'', rangeOf weaponRanges ''range'', False),
          (''accuracy'', rangeOf weaponRanges ''accuracy'', True),
          (''durability'', rangeOf weaponRanges ''durability'', True),
          (''weight'', rangeOf weaponRanges ''weight'', False),
          (''value'', rangeOf weaponRanges ''value'', True)] w)
     else if itemType = JStr (typeValue ARMOR) then
       (let armorRanges = getArmorStatRanges t in rollStats
         [(''defense'', rangeOf armorRanges ''defense'', True),
          (''magicResistance'', rangeOf armorRanges ''magicResistance'', True),
          (''fireResistance'', rangeOf armorRanges ''elementalResistance'', True),
          (''iceResistance'', rangeOf armorRanges ''elementalResistance'', True),
          (''lightningResistance'', rangeOf armorRanges ''elementalResistance'', True),
          (''poisonResistance'', rangeOf armorRanges ''elementalResistance'', True),
          (''durability'', rangeOf armorRanges ''durability'', True),
          (''weight'', rangeOf armorRanges ''weight'', False),
          (''value'', rangeOf armorRanges ''value'', True)] w)
     else if itemType = JStr (typeValue ACCESSORY) then
       (let accessoryRanges = getAccessoryStatRanges t in rollStats
         [(''health'', rangeOf accessoryRanges ''health'', True),
          (''mana'', rangeOf accessoryRanges ''mana'', True),
          (''stamina'', rangeOf accessoryRanges ''stamina'', True),
          (''strength'', rangeOf accessoryRanges ''attributes'', True),
          (''dexterity'', rangeOf accessoryRanges ''attributes'', True),
          (''intelligence'', rangeOf accessoryRanges ''attributes'', True),
          (''wisdom'', rangeOf accessoryRanges ''attributes'', True),
          (''constitution'', rangeOf accessoryRanges ''attributes'', True),
          (''luck'', rangeOf accessoryRanges ''luck'', True),
          (''durability'', rangeOf accessoryRanges ''durability'', True),
          (''weight'', rangeOf accessoryRanges ''weight'', False),
          (''value'', rangeOf accessoryRanges ''value'', True)] w)
     else if itemType = JStr (typeValue CONSUMABLE) then
       (let consumableRanges = getConsumableStatRanges t in rollStats
         [(''healingPower'', rangeOf consumableRanges ''healingPower'', True),
          (''manaPower'', rangeOf consumableRanges ''manaPower'', True),
          (''duration'', rangeOf consumableRanges ''duration'', True),
          (''stackSize'', rangeOf consumableRanges ''stackSize'', True),
          (''value'', rangeOf consumableRanges ''value'', True)] w)
     else if itemType = JStr (typeValue MATERIAL) then
       (let materialRanges = getMaterialStatRanges t in rollStats
         [(''purity'', rangeOf materialRanges ''purity'', True),
          (''stackSize'', rangeOf materialRanges ''stackSize'', True),
          (''craftingBonus'', rangeOf materialRanges ''craftingBonus'', True),
          (''value'', rangeOf materialRanges ''value'', True)] w)
     else rollStats
         [(''durability'', mk 50 200, True),
          (''weight'', mk 0.5 5.0, False),
          (''value'', mk 50 500, True)] w)"

text \<open>The subtype table of \<^verbatim>\<open>getRandomSubType\<close>, keyed by the item type's string.\<close>

definition subTypes :: "(string \<times> string list) list" where
  "subTypes =
     [(typeValue WEAPON, WeaponSubType),
      (typeValue ARMOR, ArmorSubType),
      (typeValue ACCESSORY, AccessorySubType),
      (typeValue CONSUMABLE, ConsumableSubType),
      (typeValue MATERIAL, MaterialSubType),
      (typeValue RUNE, [''Lesser Rune'', ''Greater Rune'', ''Master Rune'', ''Divine Rune'']),
      (typeValue ARTIFACT,
        [''Ancient Relic'', ''Mystic Artifact'', ''Divine Artifact'', ''Primordial Remnant''])]"

text \<open>
  \<^verbatim>\<open>getRandomSubType\<close>. When the item type is not a key of the table, \<^verbatim>\<open>options\<close>
  is undefined and reading \<^verbatim>\<open>options.length\<close> throws before any random number is
  drawn: the result is \<open>None\<close>. (Keys inherited from \<^verbatim>\<open>Object.prototype\<close> are not
  modelled.) An index outside the array reads \<^verbatim>\<open>undefined\<close>.
\<close>

definition getRandomSubType :: "jv \<Rightarrow> world \<Rightarrow> (jv \<times> world) option" where
  "getRandomSubType itemType w =
     (case itemType of
        JStr s \<Rightarrow>
          (case map_of subTypes s of
             None \<Rightarrow> None
           | Some options \<Rightarrow>
               (let (r, w') = Math_random w;
                    i = \<lfloor>r * real (length options)\<rfloor>
                in Some (if 0 \<le> i \<and> nat i < length options
                         then JStr (options ! nat i) else JUndefined, w')))
      | _ \<Rightarrow> None)"

fun optType :: "ItemType option \<Rightarrow> jv" where
  "optType None = JUndefined"
| "optType (Some t) = JStr (typeValue t)"

text \<open>JavaScript's \<^verbatim>\<open>a || b\<close> on two values already computed.\<close>

definition orElse :: "jv \<Rightarrow> jv \<Rightarrow> jv" where
  "orElse a b = (if truthy a then a else b)"

text \<open>
  \<^verbatim>\<open>generatePrompt\<close>. The prompt text goes to the service only and is not modelled;
  what remains is the effect of building it: a random subtype is drawn when the options
  give none, which throws when they give no item type either.
\<close>

definition generatePrompt :: "GenerationOptions \<Rightarrow> world \<Rightarrow> world option" where
  "generatePrompt options w =
     (if truthy (optStr (opt_subType options)) then Some w
      else map_option snd (getRandomSubType (optType (opt_itemType options)) w))"

text \<open>The properties \<^verbatim>\<open>k: mergedStats.k\<close> of an object literal, for a list of keys.\<close>

definition pick :: "jv \<Rightarrow> string list \<Rightarrow> (string \<times> jv) list" where
  "pick mergedStats ks = map (\<lambda>k. (k, getProp mergedStats k)) ks"

definition transformToStructuredStats :: "jv \<Rightarrow> jv \<Rightarrow> LootTier \<Rightarrow> world \<Rightarrow> jv \<times> world" where
  "transformToStructuredStats aiStats itemType t w =
    (let (baseline, w') = generateStatsForType itemType t w;
         baselineStats = JObj baseline;
         mergedStats = JObj (ownProps aiStats @ baseline)
     in (if itemType = JStr (typeValue WEAPON) then
           JObj ((''damage'', orElse (getProp mergedStats ''damage'')
                                      (getProp baselineStats ''damage''))
                 # pick mergedStats [''attackSpeed'', ''criticalChance'', ''criticalDamage'',
                      ''range'', ''accuracy'', ''durability'', ''weight'', ''value''])
         else if itemType = JStr (typeValue ARMOR) then
           JObj [(''defense'', orElse (getProp mergedStats ''defense'')
                                       (getProp baselineStats ''defense'')),
                 (''magicResistance'', getProp mergedStats ''magicResistance''),
                 (''elementalResistance'', JObj
                    [(''fire'', getProp mergedStats ''fireResistance''),
                     (''ice'', getProp mergedStats ''iceResistance''),
                     (''lightning'', getProp mergedStats ''lightningResistance''),
                     (''poison'', getProp mergedStats ''poisonResistance''),
                     (''dark'', getProp mergedStats ''darkResistance''),
                     (''light'', getProp mergedStats ''lightResistance'')]),
                 (''durability'', getProp mergedStats ''durability''),
                 (''weight'', getProp mergedStats ''weight''),
                 (''value'', getProp mergedStats ''value'')]
         else if itemType = JStr (typeValue ACCESSORY) then
           JObj (pick mergedStats [''health'', ''mana'', ''stamina'', ''strength'',
                   ''dexterity'', ''intelligence'', ''wisdom'', ''constitution'', ''luck'',
                   ''durability'', ''weight'', ''value''])
         else if itemType = JStr (typeValue CONSUMABLE) then
           JObj (pick mergedStats [''healingPower'', ''manaPower'', ''duration'',
                   ''stackSize'', ''durability'', ''weight'', ''value''])
         else if itemType = JStr (typeValue MATERIAL) then
           JObj (pick mergedStats [''purity'', ''stackSize'', ''craftingBonus'',
                   ''durability'', ''weight'', ''value''])
         else mergedStats, w'))"

section \<open>Schema validation (types.ts)\<close>

text \<open>
  The zod schemas, as parsers: \<open>None\<close> is a validation error. An object schema accepts
  an object, reads the keys of its shape in order, drops every other key, and leaves out
  an optional key whose value is undefined. A union returns the result of its first
  option that accepts the value.
\<close>

fun isObject :: "jv \<Rightarrow> bool" where
  "isObject (JObj kvs) = True"
| "isObject v = False"

fun z_string :: "jv \<Rightarrow> string option" where
  "z_string (JStr s) = Some s"
| "z_string v = None"

definition optional :: "(jv \<Rightarrow> 'a option) \<Rightarrow> jv \<Rightarrow> 'a option option" where
  "optional p v = (if v = JUndefined then Some None else map_option Some (p v))"

text \<open>A native enum accepts exactly the strings of its members.\<close>

definition nativeEnum :: "string list \<Rightarrow> jv \<Rightarrow> string option" where
  "nativeEnum members v =
     (case v of JStr s \<Rightarrow> (if s \<in> set members then Some s else None) | _ \<Rightarrow> None)"

definition ItemTypeEnum :: "jv \<Rightarrow> ItemType option" where
  "ItemTypeEnum v =
     (case v of JStr s \<Rightarrow> map_of (map (\<lambda>t. (typeValue t, t)) allTypes) s | _ \<Rightarrow> None)"

definition LootTierEnum :: "jv \<Rightarrow> LootTier option" where
  "LootTierEnum v =
     (case v of JStr s \<Rightarrow> map_of (map (\<lambda>t. (tierValue t, t)) allTiers) s | _ \<Rightarrow> None)"

text \<open>The first option of a union that accepts the value.\<close>

fun z_union :: "(jv \<Rightarrow> 'a option) list \<Rightarrow> jv \<Rightarrow> 'a option" where
  "z_union [] v = None"
| "z_union (p # ps) v = (case p v of Some r \<Rightarrow> Some r | None \<Rightarrow> z_union ps v)"

text \<open>The kinds of field the stat schemas use: \<^verbatim>\<open>z.number()\<close>,
  \<^verbatim>\<open>z.number().optional()\<close>, and an optional object of optional numbers.\<close>

datatype zfield = ZNumber | ZOptNumber | ZOptObject "string list"

fun optNumbers :: "string list \<Rightarrow> jv \<Rightarrow> (string \<times> jv) list option" where
  "optNumbers [] v = Some []"
| "optNumbers (k # ks) v =
     (case getProp v k of
        JUndefined \<Rightarrow> optNumbers ks v
      | JNum x \<Rightarrow> map_option ((#) (k, JNum x)) (optNumbers ks v)
      | _ \<Rightarrow> None)"

text \<open>One field: a validation error, or the value to store, if any.\<close>

fun parseField :: "zfield \<Rightarrow> jv \<Rightarrow> jv option option" where
  "parseField ZNumber v = (case v of JNum x \<Rightarrow> Some (Some (JNum x)) | _ \<Rightarrow> None)"
| "parseField ZOptNumber v =
     (case v of JUndefined \<Rightarrow> Some None | JNum x \<Rightarrow> Some (Some (JNum x)) | _ \<Rightarrow> None)"
| "parseField (ZOptObject ks) v =
     (case v of
        JUndefined \<Rightarrow> Some None
      | JObj kvs \<Rightarrow> map_option (\<lambda>r. Some (JObj r)) (optNumbers ks (JObj kvs))
      | _ \<Rightarrow> None)"

fun parseProps :: "(string \<times> zfield) list \<Rightarrow> jv \<Rightarrow> (string \<times> jv) list option" where
  "parseProps [] v = Some []"
| "parseProps ((k, f) # fs) v =
     (case parseField f (getProp v k) of
        None \<Rightarrow> None
      | Some r \<Rightarrow>
         (case parseProps fs v of
            None \<Rightarrow> None
          | Some rest \<Rightarrow> Some ((case r of None \<Rightarrow> [] | Some x \<Rightarrow> [(k, x)]) @ rest)))"

definition z_object :: "(string \<times> zfield) list \<Rightarrow> jv \<Rightarrow> jv option" where
  "z_object shape v = (if isObject v then map_option JObj (parseProps shape v) else None)"

definition BaseStatsSchema :: "(string \<times> zfield) list" where
  "BaseStatsSchema =
     [(''durability'', ZOptNumber), (''weight'', ZOptNumber), (''value'', ZOptNumber)]"

definition WeaponStatsSchema :: "(string \<times> zfield) list" where
  "WeaponStatsSchema = BaseStatsSchema @
     [(''damage'', ZNumber), (''attackSpeed'', ZOptNumber), (''criticalChance'', ZOptNumber),
      (''criticalDamage'', ZOptNumber), (''range'', ZOptNumber), (''accuracy'', ZOptNumber)]"

definition ArmorStatsSchema :: "(string \<times> zfield) list" where
  "ArmorStatsSchema = BaseStatsSchema @
     [(''defense'', ZNumber), (''magicResistance'', ZOptNumber),
      (''elementalResistance'',
         ZOptObject [''fire'', ''ice'', ''lightning'', ''poison'', ''dark'', ''light''])]"

definition AccessoryStatsSchema :: "(string \<times> zfield) list" where
  "AccessoryStatsSchema = BaseStatsSchema @
     [(''health'', ZOptNumber), (''mana'', ZOptNumber), (''stamina'', ZOptNumber),
      (''strength'', ZOptNumber), (''dexterity'', ZOptNumber), (''intelligence'', ZOptNumber),
      (''wisdom'', ZOptNumber), (''constitution'', ZOptNumber), (''luck'', ZOptNumber)]"

definition ConsumableStatsSchema :: "(string \<times> zfield) list" where
  "ConsumableStatsSchema = BaseStatsSchema @
     [(''healingPower'', ZOptNumber), (''manaPower'', ZOptNumber), (''duration'', ZOptNumber),
      (''stackSize'', ZOptNumber)]"

definition MaterialStatsSchema :: "(string \<times> zfield) list" where
  "MaterialStatsSchema = BaseStatsSchema @
     [(''purity'', ZOptNumber), (''stackSize'', ZOptNumber), (''craftingBonus'', ZOptNumber)]"

definition ItemStatsSchema :: "jv \<Rightarrow> jv option" where
  "ItemStatsSchema =
     z_union [z_object WeaponStatsSchema, z_object ArmorStatsSchema,
            z_object AccessoryStatsSchema, z_object ConsumableStatsSchema,
            z_object MaterialStatsSchema]"

definition MagicalPropertySchema :: "jv \<Rightarrow> MagicalProperty option" where
  "MagicalPropertySchema v =
     (if isObject v then
        Option.bind (z_string (getProp v ''name'')) (\<lambda>n.
        Option.bind (z_string (getProp v ''description'')) (\<lambda>d.
        Option.bind (optional (\<lambda>x. case x of JNum m \<Rightarrow> Some m | _ \<Rightarrow> None)
                        (getProp v ''magnitude'')) (\<lambda>m.
        Some \<lparr>mp_name = n, mp_description = d, magnitude = m\<rparr>)))
      else None)"

definition z_array :: "(jv \<Rightarrow> 'a option) \<Rightarrow> jv \<Rightarrow> 'a list option" where
  "z_array p v = (case v of JArr xs \<Rightarrow> those (map p xs) | _ \<Rightarrow> None)"

text \<open>\<^verbatim>\<open>z.number().min(0).max(100)\<close>\<close>

definition RaritySchema :: "jv \<Rightarrow> real option" where
  "RaritySchema v =
     (case v of JNum x \<Rightarrow> (if 0 \<le> x \<and> x \<le> 100 then Some x else None) | _ \<Rightarrow> None)"

definition SubTypeSchema :: "jv \<Rightarrow> string option" where
  "SubTypeSchema =
     z_union [nativeEnum WeaponSubType, nativeEnum ArmorSubType, nativeEnum AccessorySubType,
            nativeEnum ConsumableSubType, nativeEnum MaterialSubType, z_string]"

text \<open>\<^verbatim>\<open>LootItemSchema.parse\<close>\<close>

definition LootItemSchema :: "jv \<Rightarrow> LootItem option" where
  "LootItemSchema v =
     (if isObject v then
        Option.bind (z_string (getProp v ''name'')) (\<lambda>n.
        Option.bind (ItemTypeEnum (getProp v ''type'')) (\<lambda>ty.
        Option.bind (SubTypeSchema (getProp v ''subType'')) (\<lambda>st.
        Option.bind (LootTierEnum (getProp v ''tier'')) (\<lambda>ti.
        Option.bind (z_string (getProp v ''description'')) (\<lambda>d.
        Option.bind (ItemStatsSchema (getProp v ''stats'')) (\<lambda>s.
        Option.bind (optional (z_array MagicalPropertySchema)
                        (getProp v ''magicalProperties'')) (\<lambda>mps.
        Option.bind (optional z_string (getProp v ''lore'')) (\<lambda>l.
        Option.bind (optional z_string (getProp v ''setName'')) (\<lambda>sn.
        Option.bind (RaritySchema (getProp v ''rarity'')) (\<lambda>r.
        Some \<lparr>name = n, type = ty, subType = st, tier = ti, description = d, stats = s,
              magicalProperties = mps, lore = l, setName = sn, rarity = r\<rparr>))))))))))
      else None)"

text \<open>A \<open>LootItem\<close> as the JavaScript object it is.\<close>

definition propertyObject :: "MagicalProperty \<Rightarrow> jv" where
  "propertyObject p =
     JObj [(''name'', JStr (mp_name p)), (''description'', JStr (mp_description p)),
           (''magnitude'', case magnitude p of None \<Rightarrow> JUndefined | Some m \<Rightarrow> JNum m)]"

definition itemObject :: "LootItem \<Rightarrow> jv" where
  "itemObject it =
     JObj [(''name'', JStr (name it)), (''type'', JStr (typeValue (type it))),
           (''subType'', JStr (subType it)), (''tier'', JStr (tierValue (tier it))),
           (''description'', JStr (description it)), (''stats'', stats it),
           (''magicalProperties'',
              case magicalProperties it of
                None \<Rightarrow> JUndefined
              | Some ps \<Rightarrow> JArr (map propertyObject ps)),
           (''lore'', optStr (lore it)), (''setName'', optStr (setName it)),
           (''rarity'', JNum (rarity it))]"

section \<open>Generation (loot-generator.ts)\<close>

text \<open>
  \<^verbatim>\<open>options.subType || generatedItem.subType || this.getRandomSubType(...)\<close>: the
  random subtype is drawn only when both others are falsy, and may throw.
\<close>

definition resolveSubType :: "GenerationOptions \<Rightarrow> jv \<Rightarrow> jv \<Rightarrow> world \<Rightarrow> (jv \<times> world) option" where
  "resolveSubType options generatedItem itemType w =
     (if truthy (optStr (opt_subType options)) then Some (optStr (opt_subType options), w)
      else if truthy (getProp generatedItem ''subType'')
           then Some (getProp generatedItem ''subType'', w)
      else getRandomSubType itemType w)"

text \<open>
  The statements of the \<^verbatim>\<open>try\<close> block of \<^verbatim>\<open>generateLoot\<close> that follow
  \<^verbatim>\<open>JSON.parse\<close>: the structured item is built from the parsed response and the
  options, and validated. The result is \<open>None\<close> when anything throws. A response that
  parses to \<^verbatim>\<open>null\<close> throws at \<^verbatim>\<open>generatedItem.stats\<close>, before any random number
  is drawn.
\<close>

definition structureItem :: "GenerationOptions \<Rightarrow> jv \<Rightarrow> world \<Rightarrow> LootItem option \<times> world" where
  "structureItem options generatedItem w2 =
    (if generatedItem = JNull \<or> generatedItem = JUndefined then (None, w2)
     else
      (let itemType = orElse (optType (opt_itemType options)) (getProp generatedItem ''type'')
       in case resolveSubType options generatedItem itemType w2 of
            None \<Rightarrow> (None, w2)
          | Some (subType', w3) \<Rightarrow>
             (let (stats', w4) = transformToStructuredStats
                      (getProp generatedItem ''stats'') itemType (opt_tier options) w3;
                  (r, w5) = Math_random w4;
                  band = getRarityRange (opt_tier options);
                  rarity' = real_of_int \<lfloor>r * (rmax band - rmin band + 1) + rmin band\<rfloor>;
                  structuredItem =
                    [(''type'', itemType),
                     (''tier'', JStr (tierValue (opt_tier options))),
                     (''subType'', subType'),
                     (''stats'', stats'),
                     (''rarity'', JNum rarity')] @ ownProps generatedItem;
                  structuredItem' =
                    (if truthy (optStr (opt_setName options))
                     then (''setName'', optStr (opt_setName options)) # structuredItem
                     else structuredItem)
              in (LootItemSchema (JObj structuredItem'), w5))))"

text \<open>
  One iteration of the loop of \<^verbatim>\<open>generateLoot\<close>: the body of the \<^verbatim>\<open>try\<close>, with
  \<open>None\<close> for an iteration that ends in the \<^verbatim>\<open>catch\<close>. The prompt is built, the
  service is called once, and its content is parsed and structured.
\<close>

definition attempt :: "GenerationOptions \<Rightarrow> world \<Rightarrow> LootItem option \<times> world" where
  "attempt options w =
    (case generatePrompt options w of
       None \<Rightarrow> (None, w)
     | Some w1 \<Rightarrow>
        (let response = service w1 (calls w1);
             w2 = w1\<lparr>calls := Suc (calls w1)\<rparr>
         in case response of
              Rejected \<Rightarrow> (None, w2)
            | Malformed \<Rightarrow> (None, w2)
            | Parsed generatedItem \<Rightarrow> structureItem options generatedItem w2))"

text \<open>The \<^verbatim>\<open>for\<close> loop with \<open>n\<close> iterations left; items are pushed in iteration order.\<close>

fun generateLoop :: "GenerationOptions \<Rightarrow> nat \<Rightarrow> world \<Rightarrow> LootItem list \<times> world" where
  "generateLoop options 0 w = ([], w)"
| "generateLoop options (Suc n) w =
     (let (result, w') = attempt options w;
          (rest, w'') = generateLoop options n w'
      in ((case result of None \<Rightarrow> [] | Some item \<Rightarrow> [item]) @ rest, w''))"

text \<open>\<^verbatim>\<open>for (let i = 0; i < options.count; i++)\<close> runs \<open>count\<close> times, and not at all
  when \<open>count\<close> is zero or negative.\<close>

definition generateLoot :: "GenerationOptions \<Rightarrow> world \<Rightarrow> LootItem list \<times> world" where
  "generateLoot options w = generateLoop options (nat (opt_count options)) w"

fun generateLootSet ::
  "string \<Rightarrow> LootTier \<Rightarrow> ItemType list \<Rightarrow> string option \<Rightarrow> world \<Rightarrow> LootItem list \<times> world" where
  "generateLootSet sn t [] model w = ([], w)"
| "generateLootSet sn t (itemType # itemTypes) model w =
     (let options = \<lparr>opt_tier = t, opt_count = 1, opt_itemType = Some itemType,
                      opt_subType = None, opt_setName = Some sn, opt_model = model\<rparr>;
          (items, w') = generateLoot options w;
          (setItems, w'') = generateLootSet sn t itemTypes model w'
      in (items @ setItems, w''))"

text \<open>The outcome of each of the first \<open>n\<close> iterations, in order: what the loop of
  \<^verbatim>\<open>generateLoot\<close> sees, kept whether the iteration failed or not.\<close>

fun outcomes :: "GenerationOptions \<Rightarrow> nat \<Rightarrow> world \<Rightarrow> LootItem option list" where
  "outcomes options 0 w = []"
| "outcomes options (Suc n) w =
     fst (attempt options w) # outcomes options n (snd (attempt options w))"

section \<open>Identity and persistence (database.ts)\<close>

text \<open>
  The table \<^verbatim>\<open>items\<close>: its rows in insertion order, and the largest row id handed out
  so far (\<^verbatim>\<open>AUTOINCREMENT\<close>). The JSON text of the \<^verbatim>\<open>stats\<close> and
  \<^verbatim>\<open>magicalProperties\<close> columns is read back to the value that was written.
\<close>

record LootDatabase =
  items :: "DatabaseItem list"
  lastInsertRowid :: nat

text \<open>
  The object that \<^verbatim>\<open>generateHash\<close> serialises. The digest of its JSON text
  (\<^verbatim>\<open>createHash("sha256")\<close>) is a parameter \<open>digest\<close> of the model.
\<close>

type_synonym content =
  "string \<times> ItemType \<times> string \<times> LootTier \<times> string \<times> jv \<times>
   MagicalProperty list option \<times> string option \<times> string option"

text \<open>
  \<^verbatim>\<open>Array.prototype.sort\<close> with the comparator \<^verbatim>\<open>a.name.localeCompare(b.name)\<close>:
  a stable sort by name. The locale's collation is a parameter: \<open>ckey\<close> maps a string to
  its collation key, and \<^verbatim>\<open>localeCompare\<close> compares the keys.
\<close>

definition sortByName :: "(string \<Rightarrow> 'k::linorder) \<Rightarrow> MagicalProperty list \<Rightarrow> MagicalProperty list" where
  "sortByName ckey ps = sort_key (\<lambda>p. ckey (mp_name p)) ps"

text \<open>\<^verbatim>\<open>generateHash\<close> returns the digest; the sort it runs is in place, so the item
  it was given is returned too, as the call leaves it.\<close>

definition generateHash ::
  "(content \<Rightarrow> string) \<Rightarrow> (string \<Rightarrow> 'k::linorder) \<Rightarrow> LootItem \<Rightarrow> string \<times> LootItem" where
  "generateHash digest ckey item =
     (let sorted = map_option (sortByName ckey) (magicalProperties item)
      in (digest (name item, type item, subType item, tier item, description item,
                  stats item, sorted, lore item, setName item),
          item\<lparr>magicalProperties := sorted\<rparr>))"

definition getItemById :: "LootDatabase \<Rightarrow> nat \<Rightarrow> DatabaseItem option" where
  "getItemById db i = find (\<lambda>row. id_row row = i) (items db)"

definition getItemByHash :: "LootDatabase \<Rightarrow> string \<Rightarrow> DatabaseItem option" where
  "getItemByHash db h = find (\<lambda>row. hash row = h) (items db)"

text \<open>\<^verbatim>\<open>saveItem\<close>, at the time \<open>now\<close>: the stored item or null, the caller's item
  after the call, and the database after the call.\<close>

definition saveItem ::
  "(content \<Rightarrow> string) \<Rightarrow> (string \<Rightarrow> 'k::linorder) \<Rightarrow> string \<Rightarrow> LootDatabase \<Rightarrow> LootItem
     \<Rightarrow> DatabaseItem option \<times> LootItem \<times> LootDatabase" where
  "saveItem digest ckey now db item0 =
     (let (h, item) = generateHash digest ckey item0
      in case getItemByHash db h of
           Some existing \<Rightarrow> (Some existing, item, db)
         | None \<Rightarrow>
            (let rowid = Suc (lastInsertRowid db);
                 row = \<lparr>name = name item, type = type item, subType = subType item,
                        tier = tier item, description = description item, stats = stats item,
                        magicalProperties = magicalProperties item, lore = lore item,
                        setName = setName item, rarity = rarity item,
                        id_row = rowid, createdAt = now, hash = h\<rparr>;
                 db' = \<lparr>items = items db @ [row], lastInsertRowid = rowid\<rparr>
             in (getItemById db' rowid, item, db')))"

text \<open>What \<^verbatim>\<open>AUTOINCREMENT\<close> and \<^verbatim>\<open>UNIQUE\<close> maintain: no row id exceeds the
  last one handed out, and no two rows share a hash.\<close>

definition tableOk :: "LootDatabase \<Rightarrow> bool" where
  "tableOk db = (list_all (\<lambda>row. id_row row \<le> lastInsertRowid db) (items db)
                 \<and> distinct (map hash (items db)))"

section \<open>Vocabulary of the properties\<close>

text \<open>The response of the service with some properties of its object set to other
  values: what the model might have returned for those fields instead.\<close>

fun override :: "(string \<times> jv) list \<Rightarrow> response \<Rightarrow> response" where
  "override ovs (Parsed (JObj kvs)) = Parsed (JObj (ovs @ kvs))"
| "override ovs resp = resp"

text \<open>The same world with the \<open>n\<close>-th response overridden by \<open>ov n\<close>, for every \<open>n\<close>.\<close>

definition answering :: "(nat \<Rightarrow> (string \<times> jv) list) \<Rightarrow> world \<Rightarrow> world" where
  "answering ov w = w\<lparr>service := \<lambda>n. override (ov n) (service w n)\<rparr>"

text \<open>The fields of the response over which the options have authority.\<close>

definition authoritative :: "GenerationOptions \<Rightarrow> string \<Rightarrow> bool" where
  "authoritative options k =
     (k = ''rarity'' \<or> k = ''tier''
      \<or> (k = ''type'' \<and> opt_itemType options \<noteq> None)
      \<or> (k = ''subType'' \<and> truthy (optStr (opt_subType options)))
      \<or> (k = ''setName'' \<and> truthy (optStr (opt_setName options))))"

text \<open>The keys that \<^verbatim>\<open>LootItemSchema\<close> reads.\<close>

definition itemKeys :: "string list" where
  "itemKeys = [''name'', ''type'', ''subType'', ''tier'', ''description'', ''stats'',
     ''magicalProperties'', ''lore'', ''setName'', ''rarity'']"

section \<open>Scenarios\<close>

text \<open>The response of the end-to-end scenario: a Gold sword whose model-supplied rarity,
  999, is out of every band.\<close>

definition flameheart :: jv where
  "flameheart = JObj [(''name'', JStr ''Flameheart''), (''type'', JStr ''Weapon''),
     (''subType'', JStr ''Sword''), (''tier'', JStr ''Gold''), (''description'', JStr ''...''),
     (''stats'', JObj [(''damage'', JNum 30)]), (''rarity'', JNum 999)]"

definition goldSword :: GenerationOptions where
  "goldSword = \<lparr>opt_tier = GOLD, opt_count = 1, opt_itemType = Some WEAPON,
     opt_subType = Some ''Sword'', opt_setName = None, opt_model = None\<rparr>"

text \<open>A world in which every random number is \<open>r\<close> and the service answers \<open>sv\<close>.\<close>

definition steady :: "real \<Rightarrow> (nat \<Rightarrow> response) \<Rightarrow> world" where
  "steady r sv = \<lparr>random = (\<lambda>n. r), drawn = 0, service = sv, calls = 0\<rparr>"

text \<open>A response that claims another type, tier, subtype and set than the request.\<close>

definition mislabelled :: jv where
  "mislabelled = JObj [(''name'', JStr ''Flameheart''), (''type'', JStr ''Armor''),
     (''subType'', JStr ''Helmet''), (''tier'', JStr ''Bronze''), (''description'', JStr ''...''),
     (''stats'', JObj [(''damage'', JNum 30)]), (''setName'', JStr ''Frost''),
     (''rarity'', JNum 999)]"

definition emberSword :: GenerationOptions where
  "emberSword = \<lparr>opt_tier = GOLD, opt_count = 1, opt_itemType = Some WEAPON,
     opt_subType = Some ''Sword'', opt_setName = Some ''Ember'', opt_model = None\<rparr>"

text \<open>A response that the schema accepts, with the given name.\<close>

definition successItem :: "string \<Rightarrow> jv" where
  "successItem n = JObj [(''name'', JStr n), (''type'', JStr ''Weapon''),
     (''subType'', JStr ''Sword''), (''tier'', JStr ''Bronze''),
     (''description'', JStr ''A test item''),
     (''stats'', JObj [(''damage'', JNum 8), (''value'', JNum 80)]), (''rarity'', JNum 10)]"

text \<open>Four answers of the service: the first call is rejected, the third returns text that is
  not JSON, the second and fourth succeed.\<close>

definition partialFailures :: "nat \<Rightarrow> response" where
  "partialFailures n =
     (if n = 0 then Rejected
      else if n = 1 then Parsed (successItem ''Success Item 1'')
      else if n = 2 then Malformed
      else Parsed (successItem ''Success Item 2''))"

definition bronzeWeapons :: GenerationOptions where
  "bronzeWeapons = \<lparr>opt_tier = BRONZE, opt_count = 4, opt_itemType = Some WEAPON,
     opt_subType = None, opt_setName = None, opt_model = None\<rparr>"

text \<open>The closed subtype domain: the subtypes that \<^verbatim>\<open>getRandomSubType\<close> lists for an item type.\<close>

definition inDomain :: "ItemType \<Rightarrow> string \<Rightarrow> bool" where
  "inDomain t s = (case map_of subTypes (typeValue t) of None \<Rightarrow> False | Some ss \<Rightarrow> s \<in> set ss)"

text \<open>A request that the specification calls malformed.\<close>

definition malformed :: "GenerationOptions \<Rightarrow> bool" where
  "malformed options =
     (opt_count options < 1
      \<or> (case (opt_itemType options, opt_subType options) of
            (Some t, Some s) \<Rightarrow> \<not> inDomain t s
          | _ \<Rightarrow> False))"

definition weaponHelmet :: GenerationOptions where
  "weaponHelmet = \<lparr>opt_tier = GOLD, opt_count = 1, opt_itemType = Some WEAPON,
     opt_subType = Some ''Helmet'', opt_setName = None, opt_model = None\<rparr>"

text \<open>The options that \<^verbatim>\<open>generateLootSet\<close> builds for one item type.\<close>

definition setOptions :: "string \<Rightarrow> LootTier \<Rightarrow> string option \<Rightarrow> ItemType \<Rightarrow> GenerationOptions" where
  "setOptions sn t model itemType =
     \<lparr>opt_tier = t, opt_count = 1, opt_itemType = Some itemType,
      opt_subType = None, opt_setName = Some sn, opt_model = model\<rparr>"

text \<open>Three answers of the service, of which the second call is rejected.\<close>

definition secondRejected :: "nat \<Rightarrow> response" where
  "secondRejected n = (if n = 1 then Rejected else Parsed (successItem ''Dragon Slayer''))"

text \<open>\<^verbatim>\<open>{...baselineStats, ...aiStats}[k]\<close>: the model's value for a stat when the model
  supplied one, otherwise the baseline value.\<close>

definition preferModel :: "jv \<Rightarrow> (string \<times> jv) list \<Rightarrow> string \<Rightarrow> jv" where
  "preferModel aiStats baseline k =
     (case map_of (ownProps aiStats) k of Some v \<Rightarrow> v | None \<Rightarrow> getProp (JObj baseline) k)"

text \<open>The flat stat names of the StatBlock of an item type; every name for the types
  without a shape of their own.\<close>

definition blockKeys :: "jv \<Rightarrow> string \<Rightarrow> bool" where
  "blockKeys itemType k =
    (if itemType = JStr (typeValue WEAPON) then
       k \<in> set [''damage'', ''attackSpeed'', ''criticalChance'', ''criticalDamage'', ''range'',
                ''accuracy'', ''durability'', ''weight'', ''value'']
     else if itemType = JStr (typeValue ARMOR) then
       k \<in> set [''defense'', ''magicResistance'', ''fireResistance'', ''iceResistance'',
                ''lightningResistance'', ''poisonResistance'', ''darkResistance'',
                ''lightResistance'', ''durability'', ''weight'', ''value'']
     else if itemType = JStr (typeValue ACCESSORY) then
       k \<in> set [''health'', ''mana'', ''stamina'', ''strength'', ''dexterity'', ''intelligence'',
                ''wisdom'', ''constitution'', ''luck'', ''durability'', ''weight'', ''value'']
     else if itemType = JStr (typeValue CONSUMABLE) then
       k \<in> set [''healingPower'', ''manaPower'', ''duration'', ''stackSize'', ''durability'',
                ''weight'', ''value'']
     else if itemType = JStr (typeValue MATERIAL) then
       k \<in> set [''purity'', ''stackSize'', ''craftingBonus'', ''durability'', ''weight'',
                ''value'']
     else True)"

text \<open>Where the structured stats of an item type keep a flat stat: Armor nests its six
  elemental resistances.\<close>

definition flatStat :: "jv \<Rightarrow> jv \<Rightarrow> string \<Rightarrow> jv" where
  "flatStat itemType structured k =
    (if itemType = JStr (typeValue ARMOR) then
       (case map_of [(''fireResistance'', ''fire''), (''iceResistance'', ''ice''),
                     (''lightningResistance'', ''lightning''), (''poisonResistance'', ''poison''),
                     (''darkResistance'', ''dark''), (''lightResistance'', ''light'')] k of
          Some e \<Rightarrow> getProp (getProp structured ''elementalResistance'') e
        | None \<Rightarrow> getProp structured k)
     else getProp structured k)"

text \<open>The stat that each of Weapon and Armor guards with \<^verbatim>\<open>|| baselineStats\<close>.\<close>

definition guarded :: "jv \<Rightarrow> string \<Rightarrow> bool" where
  "guarded itemType k =
     ((itemType = JStr (typeValue WEAPON) \<and> k = ''damage'')
      \<or> (itemType = JStr (typeValue ARMOR) \<and> k = ''defense''))"

definition statOf :: "string \<Rightarrow> LootItem \<Rightarrow> jv" where
  "statOf k item = getProp (stats item) k"

text \<open>A world in which every random number is one half and the service always answers with
  the same parsed value.\<close>

definition answers :: "jv \<Rightarrow> world" where
  "answers g = steady (1/2) (\<lambda>n. Parsed g)"

text \<open>The end-to-end response with a fractional damage.\<close>

definition fractional :: jv where
  "fractional = JObj [(''name'', JStr ''Flameheart''), (''type'', JStr ''Weapon''),
     (''subType'', JStr ''Sword''), (''tier'', JStr ''Gold''), (''description'', JStr ''...''),
     (''stats'', JObj [(''damage'', JNum 30.5), (''weight'', JNum 2.345)]), (''rarity'', JNum 50)]"

text \<open>A stand-in for the digest in the scenarios: the name followed by the descriptions of the
  magical properties in their serialised order. It tells apart the contents it is applied
  to below, as the SHA-256 digest of their JSON text does.\<close>

definition plainDigest :: "content \<Rightarrow> string" where
  "plainDigest c =
     (case c of (n, ty, st, ti, d, s, mps, l, sn) \<Rightarrow>
        n @ concat (map mp_description (case mps of None \<Rightarrow> [] | Some ps \<Rightarrow> ps)))"

text \<open>The collation of the scenarios: strings compared character by character.\<close>

definition codePoints :: "string \<Rightarrow> string" where
  "codePoints s = s"

definition emptyDb :: LootDatabase where
  "emptyDb = \<lparr>items = [], lastInsertRowid = 0\<rparr>"

definition sharpness :: MagicalProperty where
  "sharpness = \<lparr>mp_name = ''Sharpness'', mp_description = ''Increases damage'', magnitude = Some 10\<rparr>"

definition flame :: MagicalProperty where
  "flame = \<lparr>mp_name = ''Flame'', mp_description = ''Burns'', magnitude = None\<rparr>"

definition glowA :: MagicalProperty where
  "glowA = \<lparr>mp_name = ''Glow'', mp_description = ''a'', magnitude = None\<rparr>"

definition glowB :: MagicalProperty where
  "glowB = \<lparr>mp_name = ''Glow'', mp_description = ''b'', magnitude = None\<rparr>"

text \<open>A stored sword with the given magical properties and rarity.\<close>

definition sword :: "MagicalProperty list \<Rightarrow> real \<Rightarrow> LootItem" where
  "sword ps r = \<lparr>name = ''Integration Test Sword'', type = WEAPON, subType = ''Sword'',
     tier = GOLD, description = ''A sword'', stats = JObj [(''damage'', JNum 25)],
     magicalProperties = Some ps, lore = None, setName = None, rarity = r\<rparr>"

section \<open>Lemmas about the generation pipeline\<close>

subsection \<open>Frame lemmas\<close>

lemma Math_random_frame:
  "Math_random w = (r, w') \<Longrightarrow>
     r = random w (drawn w) \<and> random w' = random w \<and> service w' = service w \<and> calls w' = calls w"
  by (auto simp: Math_random_def)

lemma randomInRange_frame:
  "randomInRange rg w = (x, w') \<Longrightarrow>
     random w' = random w \<and> service w' = service w \<and> calls w' = calls w"
  by (auto simp: randomInRange_def Math_random_def)

lemma rollStats_frame:
  "rollStats fs w = (out, w') \<Longrightarrow>
     random w' = random w \<and> service w' = service w \<and> calls w' = calls w"
proof (induction fs arbitrary: w out w')
  case Nil
  then show ?case by simp
next
  case (Cons f fs)
  obtain k rg b where f: "f = (k, rg, b)" by (cases f)
  obtain x w1 where r: "randomInRange rg w = (x, w1)" by (cases "randomInRange rg w")
  obtain rest w2 where s: "rollStats fs w1 = (rest, w2)" by (cases "rollStats fs w1")
  from Cons.prems f r s have "w' = w2" by simp
  with Cons.IH[OF s] randomInRange_frame[OF r] show ?case by simp
qed

lemma generateStatsForType_frame:
  "generateStatsForType ty t w = (out, w') \<Longrightarrow>
     random w' = random w \<and> service w' = service w \<and> calls w' = calls w"
  unfolding generateStatsForType_def Let_def
  by (auto simp del: rollStats.simps split: if_splits dest: rollStats_frame)

lemma transformToStructuredStats_frame:
  "transformToStructuredStats ai ty t w = (out, w') \<Longrightarrow>
     random w' = random w \<and> service w' = service w \<and> calls w' = calls w"
  unfolding transformToStructuredStats_def Let_def
  by (auto split: prod.splits dest: generateStatsForType_frame)

lemma getRandomSubType_frame:
  "getRandomSubType ty w = Some (v, w') \<Longrightarrow>
     random w' = random w \<and> service w' = service w \<and> calls w' = calls w"
  unfolding getRandomSubType_def Let_def
  by (auto split: jv.splits option.splits prod.splits simp: Math_random_def)

lemma generatePrompt_frame:
  "generatePrompt options w = Some w' \<Longrightarrow>
     random w' = random w \<and> service w' = service w \<and> calls w' = calls w"
  unfolding generatePrompt_def
  by (auto split: if_splits dest: getRandomSubType_frame)

lemma resolveSubType_frame:
  "resolveSubType options g ty w = Some (v, w') \<Longrightarrow>
     random w' = random w \<and> service w' = service w \<and> calls w' = calls w"
  unfolding resolveSubType_def
  by (auto split: if_splits dest: getRandomSubType_frame)

subsection \<open>Schema validation\<close>

lemma LootItemSchema_SomeD:
  assumes "LootItemSchema v = Some item"
  shows "z_string (getProp v ''name'') = Some (name item)"
    and "ItemTypeEnum (getProp v ''type'') = Some (type item)"
    and "SubTypeSchema (getProp v ''subType'') = Some (subType item)"
    and "LootTierEnum (getProp v ''tier'') = Some (tier item)"
    and "z_string (getProp v ''description'') = Some (description item)"
    and "ItemStatsSchema (getProp v ''stats'') = Some (stats item)"
    and "optional (z_array MagicalPropertySchema) (getProp v ''magicalProperties'')
           = Some (magicalProperties item)"
    and "optional z_string (getProp v ''lore'') = Some (lore item)"
    and "optional z_string (getProp v ''setName'') = Some (setName item)"
    and "RaritySchema (getProp v ''rarity'') = Some (rarity item)"
  using assms unfolding LootItemSchema_def
  by (auto split: if_splits Option.bind_splits)

lemma LootTierEnum_tierValue [simp]: "LootTierEnum (JStr (tierValue t)) = Some t"
  by (cases t) (simp_all add: LootTierEnum_def allTiers_def)

lemma ItemTypeEnum_typeValue [simp]: "ItemTypeEnum (JStr (typeValue t)) = Some t"
  by (cases t) (simp_all add: ItemTypeEnum_def allTypes_def)

lemma z_union_Some: "z_union ps v = Some r \<Longrightarrow> \<exists>p \<in> set ps. p v = Some r"
  by (induction ps) (auto split: option.splits)

lemma z_union_accepts: "p \<in> set ps \<Longrightarrow> p v \<noteq> None \<Longrightarrow> z_union ps v \<noteq> None"
  by (induction ps) (auto split: option.splits)

lemma nativeEnum_Some: "nativeEnum ms v = Some s \<Longrightarrow> v = JStr s"
  by (auto simp: nativeEnum_def split: jv.splits if_splits)

lemma z_string_Some: "z_string v = Some s \<Longrightarrow> v = JStr s"
  by (cases v) auto

lemma SubTypeSchema_Some: "SubTypeSchema v = Some s \<Longrightarrow> v = JStr s"
proof -
  assume "SubTypeSchema v = Some s"
  then obtain p where "p \<in> set [nativeEnum WeaponSubType, nativeEnum ArmorSubType,
      nativeEnum AccessorySubType, nativeEnum ConsumableSubType, nativeEnum MaterialSubType,
      z_string]" "p v = Some s"
    unfolding SubTypeSchema_def by (blast dest: z_union_Some)
  then show ?thesis by (auto dest: nativeEnum_Some z_string_Some)
qed

lemma SubTypeSchema_JStr [simp]: "SubTypeSchema (JStr s) = Some s"
proof -
  have "SubTypeSchema (JStr s) \<noteq> None"
    unfolding SubTypeSchema_def by (rule z_union_accepts[of z_string]) auto
  then obtain s' where "SubTypeSchema (JStr s) = Some s'" by auto
  with SubTypeSchema_Some[OF this] show ?thesis by simp
qed

lemma RaritySchema_Some: "RaritySchema v = Some r \<Longrightarrow> v = JNum r \<and> 0 \<le> r \<and> r \<le> 100"
  by (auto simp: RaritySchema_def split: jv.splits if_splits)

lemma optional_z_string_JStr [simp]: "optional z_string (JStr s) = Some (Some s)"
  by (simp add: optional_def)

lemma LootItemSchema_cong:
  assumes "\<And>k. k \<in> set itemKeys \<Longrightarrow> getProp (JObj a) k = getProp (JObj b) k"
  shows "LootItemSchema (JObj a) = LootItemSchema (JObj b)"
  using assms unfolding LootItemSchema_def itemKeys_def by simp

subsection \<open>One iteration\<close>

lemma typeValue_nonempty [simp]: "typeValue t \<noteq> []"
  by (cases t) simp_all

lemma orElse_type [simp]: "orElse (JStr (typeValue t)) v = JStr (typeValue t)"
  by (simp add: orElse_def)

text \<open>What a successful iteration fixes about the object it validates.\<close>

lemma attempt_SomeD:
  assumes "attempt options w = (Some item, w')"
  shows "\<exists>g kvs k. LootItemSchema (JObj kvs) = Some item
     \<and> getProp (JObj kvs) ''tier'' = JStr (tierValue (opt_tier options))
     \<and> getProp (JObj kvs) ''type'' = orElse (optType (opt_itemType options)) (getProp g ''type'')
     \<and> getProp (JObj kvs) ''rarity'' =
          JNum (real_of_int \<lfloor>random w k * (rmax (getRarityRange (opt_tier options))
              - rmin (getRarityRange (opt_tier options)) + 1)
              + rmin (getRarityRange (opt_tier options))\<rfloor>)
     \<and> (truthy (optStr (opt_subType options)) \<longrightarrow>
           getProp (JObj kvs) ''subType'' = optStr (opt_subType options))
     \<and> (truthy (optStr (opt_setName options)) \<longrightarrow>
           getProp (JObj kvs) ''setName'' = optStr (opt_setName options))"
proof -
  from assms obtain w1 where gp: "generatePrompt options w = Some w1"
    unfolding attempt_def by (auto split: option.splits)
  define w2 where "w2 = w1\<lparr>calls := Suc (calls w1)\<rparr>"
  from assms gp obtain g where resp: "service w1 (calls w1) = Parsed g"
    and g: "g \<noteq> JNull" "g \<noteq> JUndefined"
    unfolding attempt_def structureItem_def Let_def by (auto split: response.splits if_splits)
  define ty where "ty = orElse (optType (opt_itemType options)) (getProp g ''type'')"
  from assms gp resp g obtain st w3 where rs: "resolveSubType options g ty w2 = Some (st, w3)"
    unfolding attempt_def structureItem_def Let_def w2_def ty_def by (auto split: option.splits)
  obtain s w4 where ts: "transformToStructuredStats (getProp g ''stats'') ty (opt_tier options) w3 = (s, w4)"
    by (cases "transformToStructuredStats (getProp g ''stats'') ty (opt_tier options) w3")
  obtain r w5 where mr: "Math_random w4 = (r, w5)" by (cases "Math_random w4")
  have rw: "random w4 = random w"
    using generatePrompt_frame[OF gp] resolveSubType_frame[OF rs]
      transformToStructuredStats_frame[OF ts] by (simp add: w2_def)
  have r: "r = random w (drawn w4)" using Math_random_frame[OF mr] rw by simp
  define band where "band = getRarityRange (opt_tier options)"
  define base where "base = [(''type'', ty), (''tier'', JStr (tierValue (opt_tier options))),
     (''subType'', st), (''stats'', s),
     (''rarity'', JNum (real_of_int \<lfloor>r * (rmax band - rmin band + 1) + rmin band\<rfloor>))] @ ownProps g"
  define kvs where "kvs = (if truthy (optStr (opt_setName options))
       then (''setName'', optStr (opt_setName options)) # base else base)"
  have item: "LootItemSchema (JObj kvs) = Some item"
    using assms gp resp g rs ts mr
    unfolding attempt_def structureItem_def Let_def w2_def ty_def kvs_def base_def band_def
    by (simp split: if_splits)
  have st: "truthy (optStr (opt_subType options)) \<Longrightarrow> st = optStr (opt_subType options)"
    using rs unfolding resolveSubType_def by simp
  show ?thesis
    apply (rule exI[of _ g], rule exI[of _ kvs], rule exI[of _ "drawn w4"])
    using item st by (simp add: kvs_def base_def getProp_def r band_def ty_def)
qed

lemma attempt_fields:
  assumes "attempt options w = (Some item, w')"
  shows "tier item = opt_tier options"
    and "opt_itemType options = Some t \<Longrightarrow> type item = t"
    and "opt_subType options = Some s \<Longrightarrow> s \<noteq> [] \<Longrightarrow> subType item = s"
    and "opt_setName options = Some n \<Longrightarrow> n \<noteq> [] \<Longrightarrow> setName item = Some n"
    and "\<exists>k. rarity item =
          real_of_int \<lfloor>random w k * (rmax (getRarityRange (opt_tier options))
              - rmin (getRarityRange (opt_tier options)) + 1)
              + rmin (getRarityRange (opt_tier options))\<rfloor>"
proof -
  from attempt_SomeD[OF assms] obtain g kvs k where
    v: "LootItemSchema (JObj kvs) = Some item"
    and ti: "getProp (JObj kvs) ''tier'' = JStr (tierValue (opt_tier options))"
    and ty: "getProp (JObj kvs) ''type'' = orElse (optType (opt_itemType options)) (getProp g ''type'')"
    and ra: "getProp (JObj kvs) ''rarity'' =
          JNum (real_of_int \<lfloor>random w k * (rmax (getRarityRange (opt_tier options))
              - rmin (getRarityRange (opt_tier options)) + 1)
              + rmin (getRarityRange (opt_tier options))\<rfloor>)"
    and st: "truthy (optStr (opt_subType options)) \<longrightarrow>
           getProp (JObj kvs) ''subType'' = optStr (opt_subType options)"
    and sn: "truthy (optStr (opt_setName options)) \<longrightarrow>
           getProp (JObj kvs) ''setName'' = optStr (opt_setName options)"
    by blast
  note d = LootItemSchema_SomeD[OF v]
  show "tier item = opt_tier options" using d(4) ti by simp
  show "opt_itemType options = Some t \<Longrightarrow> type item = t" using d(2) ty by simp
  show "opt_subType options = Some s \<Longrightarrow> s \<noteq> [] \<Longrightarrow> subType item = s" using d(3) st by simp
  show "opt_setName options = Some n \<Longrightarrow> n \<noteq> [] \<Longrightarrow> setName item = Some n" using d(9) sn by simp
  show "\<exists>k. rarity item =
          real_of_int \<lfloor>random w k * (rmax (getRarityRange (opt_tier options))
              - rmin (getRarityRange (opt_tier options)) + 1)
              + rmin (getRarityRange (opt_tier options))\<rfloor>"
  proof -
    from RaritySchema_Some[OF d(10)] ra
    have "rarity item = real_of_int \<lfloor>random w k * (rmax (getRarityRange (opt_tier options))
              - rmin (getRarityRange (opt_tier options)) + 1)
              + rmin (getRarityRange (opt_tier options))\<rfloor>" by simp
    then show ?thesis by (rule exI)
  qed
qed

lemma attempt_frame:
  "attempt options w = (res, w') \<Longrightarrow> random w' = random w \<and> service w' = service w"
  unfolding attempt_def structureItem_def Let_def
  by (auto split: option.splits response.splits if_splits prod.splits
      dest!: generatePrompt_frame resolveSubType_frame transformToStructuredStats_frame
             Math_random_frame)

lemma generateLoop_frame:
  "generateLoop options n w = (res, w') \<Longrightarrow> random w' = random w \<and> service w' = service w"
proof (induction n arbitrary: w res w')
  case 0
  then show ?case by simp
next
  case (Suc n)
  obtain r w1 where a: "attempt options w = (r, w1)" by (cases "attempt options w")
  obtain rest w2 where l: "generateLoop options n w1 = (rest, w2)"
    by (cases "generateLoop options n w1")
  from Suc.prems a l have "w' = w2" by simp
  with Suc.IH[OF l] attempt_frame[OF a] show ?case by simp
qed

lemma generateLoop_member:
  "item \<in> set (fst (generateLoop options n w)) \<Longrightarrow>
     \<exists>w0 w1. attempt options w0 = (Some item, w1) \<and> random w0 = random w \<and> service w0 = service w"
proof (induction n arbitrary: w)
  case 0
  then show ?case by simp
next
  case (Suc n)
  obtain r w1 where a: "attempt options w = (r, w1)" by (cases "attempt options w")
  obtain rest w2 where l: "generateLoop options n w1 = (rest, w2)"
    by (cases "generateLoop options n w1")
  from Suc.prems a l have "r = Some item \<or> item \<in> set (fst (generateLoop options n w1))"
    by (auto split: option.splits)
  then show ?case
  proof
    assume "r = Some item"
    with a show ?thesis by blast
  next
    assume "item \<in> set (fst (generateLoop options n w1))"
    from Suc.IH[OF this] attempt_frame[OF a] show ?thesis by auto
  qed
qed

lemma rarity_in_band:
  assumes "0 \<le> r" "r < 1"
  shows "rmin (getRarityRange t)
           \<le> real_of_int \<lfloor>r * (rmax (getRarityRange t) - rmin (getRarityRange t) + 1)
                + rmin (getRarityRange t)\<rfloor>"
    and "real_of_int \<lfloor>r * (rmax (getRarityRange t) - rmin (getRarityRange t) + 1)
                + rmin (getRarityRange t)\<rfloor> \<le> rmax (getRarityRange t)"
proof -
  obtain a b :: int where ab: "getRarityRange t = mk (real_of_int a) (real_of_int b)" "a \<le> b"
    by (cases t) (auto simp: mk_def intro: that[of 5 25] that[of 20 40] that[of 35 60]
        that[of 55 75] that[of 70 90] that[of 85 100])
  let ?x = "r * (real_of_int b - real_of_int a + 1) + real_of_int a"
  have "0 \<le> r * (real_of_int b - real_of_int a + 1)" using assms ab by simp
  then have "real_of_int a \<le> ?x" by simp
  then have 1: "a \<le> \<lfloor>?x\<rfloor>" by (simp add: le_floor_iff)
  have "r * (real_of_int b - real_of_int a + 1) < 1 * (real_of_int b - real_of_int a + 1)"
    using assms ab by (intro mult_strict_right_mono) auto
  then have "?x < real_of_int (b + 1)" by simp
  then have "\<lfloor>?x\<rfloor> < b + 1" by (simp only: floor_less_iff)
  then have 2: "\<lfloor>?x\<rfloor> \<le> b" by simp
  show "rmin (getRarityRange t)
           \<le> real_of_int \<lfloor>r * (rmax (getRarityRange t) - rmin (getRarityRange t) + 1)
                + rmin (getRarityRange t)\<rfloor>"
    using 1 by (simp add: ab mk_def)
  show "real_of_int \<lfloor>r * (rmax (getRarityRange t) - rmin (getRarityRange t) + 1)
                + rmin (getRarityRange t)\<rfloor> \<le> rmax (getRarityRange t)"
    using 2 by (simp add: ab mk_def)
qed

subsection \<open>The service is not read while an item is structured\<close>

lemma Math_random_service:
  "Math_random (w\<lparr>service := sv\<rparr>) = (fst (Math_random w), (snd (Math_random w))\<lparr>service := sv\<rparr>)"
  by (simp add: Math_random_def)

lemma randomInRange_service:
  "randomInRange rg (w\<lparr>service := sv\<rparr>)
     = (fst (randomInRange rg w), (snd (randomInRange rg w))\<lparr>service := sv\<rparr>)"
  by (simp add: randomInRange_def Math_random_def)

lemma rollStats_service:
  "rollStats fs (w\<lparr>service := sv\<rparr>) = (fst (rollStats fs w), (snd (rollStats fs w))\<lparr>service := sv\<rparr>)"
proof (induction fs arbitrary: w)
  case Nil
  then show ?case by simp
next
  case (Cons f fs)
  obtain k rg b where f: "f = (k, rg, b)" by (cases f)
  show ?case
    by (simp add: f randomInRange_service Cons.IH split: prod.splits)
qed

lemma generateStatsForType_service:
  "generateStatsForType ty t (w\<lparr>service := sv\<rparr>)
     = (fst (generateStatsForType ty t w), (snd (generateStatsForType ty t w))\<lparr>service := sv\<rparr>)"
  unfolding generateStatsForType_def Let_def
  by (simp add: rollStats_service del: rollStats.simps)

lemma transformToStructuredStats_service:
  "transformToStructuredStats ai ty t (w\<lparr>service := sv\<rparr>)
     = (fst (transformToStructuredStats ai ty t w),
        (snd (transformToStructuredStats ai ty t w))\<lparr>service := sv\<rparr>)"
  by (simp only: transformToStructuredStats_def Let_def generateStatsForType_service
        split_beta fst_conv snd_conv)

lemma getRandomSubType_service:
  "getRandomSubType ty (w\<lparr>service := sv\<rparr>)
     = map_option (\<lambda>(v, w'). (v, w'\<lparr>service := sv\<rparr>)) (getRandomSubType ty w)"
  unfolding getRandomSubType_def Let_def
  by (simp add: Math_random_def split: jv.splits option.splits)

lemma generatePrompt_service:
  "generatePrompt options (w\<lparr>service := sv\<rparr>)
     = map_option (\<lambda>w'. w'\<lparr>service := sv\<rparr>) (generatePrompt options w)"
  unfolding generatePrompt_def
  by (cases "getRandomSubType (optType (opt_itemType options)) w")
     (auto simp: getRandomSubType_service)

lemma resolveSubType_service:
  "resolveSubType options g ty (w\<lparr>service := sv\<rparr>)
     = map_option (\<lambda>(v, w'). (v, w'\<lparr>service := sv\<rparr>)) (resolveSubType options g ty w)"
  unfolding resolveSubType_def
  by (simp add: getRandomSubType_service)

lemma structureItem_service:
  "structureItem options g (w\<lparr>service := sv\<rparr>)
     = (fst (structureItem options g w), (snd (structureItem options g w))\<lparr>service := sv\<rparr>)"
  unfolding structureItem_def Let_def
  by (cases "resolveSubType options g
               (orElse (optType (opt_itemType options)) (getProp g ''type'')) w")
     (auto simp: resolveSubType_service transformToStructuredStats_service Math_random_service
           split: prod.splits)

subsection \<open>Fields of the response that the options override\<close>

lemma getProp_Cons [simp]:
  "getProp (JObj ((k', v) # kvs)) k = (if k = k' then v else getProp (JObj kvs) k)"
  by (simp add: getProp_def)

lemma getProp_override:
  "k \<notin> fst ` set ovs \<Longrightarrow> getProp (JObj (ovs @ kvs)) k = getProp (JObj kvs) k"
  by (induction ovs) auto

lemma structureItem_override:
  assumes "\<And>k. k \<in> fst ` set ovs \<Longrightarrow> authoritative options k"
  shows "structureItem options (JObj (ovs @ kvs)) w = structureItem options (JObj kvs) w"
proof -
  let ?g' = "JObj (ovs @ kvs)" and ?g = "JObj kvs"
  have na: "\<And>k. \<not> authoritative options k \<Longrightarrow> getProp ?g' k = getProp ?g k"
    using assms getProp_override by blast
  have st: "getProp ?g' ''stats'' = getProp ?g ''stats''"
    by (rule na) (simp add: authoritative_def)
  have nm: "getProp ?g' ''name'' = getProp ?g ''name''"
    by (rule na) (simp add: authoritative_def)
  have de: "getProp ?g' ''description'' = getProp ?g ''description''"
    by (rule na) (simp add: authoritative_def)
  have mp: "getProp ?g' ''magicalProperties'' = getProp ?g ''magicalProperties''"
    by (rule na) (simp add: authoritative_def)
  have lo: "getProp ?g' ''lore'' = getProp ?g ''lore''"
    by (rule na) (simp add: authoritative_def)
  have sn: "\<not> truthy (optStr (opt_setName options)) \<Longrightarrow>
      getProp ?g' ''setName'' = getProp ?g ''setName''"
    by (rule na) (simp add: authoritative_def)
  have ty: "orElse (optType (opt_itemType options)) (getProp ?g' ''type'')
          = orElse (optType (opt_itemType options)) (getProp ?g ''type'')"
  proof (cases "opt_itemType options")
    case None
    then have "\<not> authoritative options ''type''" by (simp add: authoritative_def)
    from na[OF this] show ?thesis by simp
  next
    case (Some t)
    then show ?thesis by simp
  qed
  have rs: "resolveSubType options ?g' i w = resolveSubType options ?g i w" for i
  proof (cases "truthy (optStr (opt_subType options))")
    case True
    then show ?thesis by (simp add: resolveSubType_def)
  next
    case False
    then have "\<not> authoritative options ''subType''" by (simp add: authoritative_def)
    from na[OF this] show ?thesis by (simp add: resolveSubType_def)
  qed
  have v1: "LootItemSchema (JObj ((''setName'', x) # (''type'', a) # (''tier'', b) # (''subType'', c)
               # (''stats'', d) # (''rarity'', e) # ovs @ kvs))
         = LootItemSchema (JObj ((''setName'', x) # (''type'', a) # (''tier'', b) # (''subType'', c)
               # (''stats'', d) # (''rarity'', e) # kvs))" for x a b c d e
    unfolding LootItemSchema_def by (simp add: nm de mp lo)
  have v2: "LootItemSchema (JObj ((''type'', a) # (''tier'', b) # (''subType'', c)
               # (''stats'', d) # (''rarity'', e) # ovs @ kvs))
         = LootItemSchema (JObj ((''type'', a) # (''tier'', b) # (''subType'', c)
               # (''stats'', d) # (''rarity'', e) # kvs))"
    if "\<not> truthy (optStr (opt_setName options))" for a b c d e
    unfolding LootItemSchema_def by (simp add: nm de mp lo sn[OF that])
  show ?thesis
  proof (cases "truthy (optStr (opt_setName options))")
    case True
    show ?thesis
      unfolding structureItem_def Let_def ty rs st
      by (simp add: True v1 del: getProp_Cons split: option.splits prod.splits)
  next
    case False
    show ?thesis
      unfolding structureItem_def Let_def ty rs st
      by (simp add: False v2[OF False] del: getProp_Cons split: option.splits prod.splits)
  qed
qed

lemma structureItem_frame:
  "structureItem options g w = (res, w') \<Longrightarrow>
     random w' = random w \<and> service w' = service w \<and> calls w' = calls w"
  unfolding structureItem_def Let_def
  by (auto split: option.splits if_splits prod.splits
      dest!: resolveSubType_frame transformToStructuredStats_frame Math_random_frame)

lemma world_update_swap:
  "w\<lparr>calls := c, service := sv\<rparr> = w\<lparr>service := sv, calls := c\<rparr>"
  by (cases w) simp

lemma answering_same_service:
  "service w' = service w \<Longrightarrow> answering ov w' = w'\<lparr>service := service (answering ov w)\<rparr>"
  by (simp add: answering_def)

lemma override_structureItem:
  assumes "\<And>k. k \<in> fst ` set ovs \<Longrightarrow> authoritative options k"
  shows "(case override ovs resp of
            Rejected \<Rightarrow> (None, w) | Malformed \<Rightarrow> (None, w)
          | Parsed g \<Rightarrow> structureItem options g w)
       = (case resp of
            Rejected \<Rightarrow> (None, w) | Malformed \<Rightarrow> (None, w)
          | Parsed g \<Rightarrow> structureItem options g w)"
proof (cases resp)
  case (Parsed g)
  then show ?thesis
    by (cases g) (simp_all add: structureItem_override[OF assms])
qed simp_all

lemma attempt_answering:
  assumes "\<And>n k. k \<in> fst ` set (ov n) \<Longrightarrow> authoritative options k"
  shows "attempt options (answering ov w)
       = (fst (attempt options w), answering ov (snd (attempt options w)))"
proof -
  define sv where "sv = service (answering ov w)"
  have aw: "answering ov w = w\<lparr>service := sv\<rparr>" by (simp add: sv_def answering_def)
  have sv: "sv n = override (ov n) (service w n)" for n by (simp add: sv_def answering_def)
  show ?thesis
  proof (cases "generatePrompt options w")
    case None
    then show ?thesis by (simp add: attempt_def aw generatePrompt_service)
  next
    case (Some w1)
    from generatePrompt_frame[OF Some] have f1: "service w1 = service w" by simp
    define w2 where "w2 = w1\<lparr>calls := Suc (calls w1)\<rparr>"
    define body where "body resp =
        (case resp of Rejected \<Rightarrow> (None, w2) | Malformed \<Rightarrow> (None, w2)
         | Parsed g \<Rightarrow> structureItem options g w2)" for resp
    have a: "attempt options w = body (service w (calls w1))"
      unfolding attempt_def body_def w2_def Let_def by (simp add: Some f1)
    obtain res w3 where b: "body (service w (calls w1)) = (res, w3)"
      by (cases "body (service w (calls w1))")
    have s3: "service w3 = service w"
      using b f1 unfolding body_def w2_def
      by (auto split: response.splits dest!: structureItem_frame)
    define body' where "body' resp =
        (case resp of Rejected \<Rightarrow> (None, w2\<lparr>service := sv\<rparr>) | Malformed \<Rightarrow> (None, w2\<lparr>service := sv\<rparr>)
         | Parsed g \<Rightarrow> structureItem options g (w2\<lparr>service := sv\<rparr>))" for resp
    have bb: "body' resp = (fst (body resp), (snd (body resp))\<lparr>service := sv\<rparr>)" for resp
      unfolding body'_def body_def
      by (cases resp) (simp_all add: structureItem_service)
    have "attempt options (answering ov w) = body' (sv (calls w1))"
      unfolding attempt_def body'_def w2_def Let_def aw
      by (simp add: generatePrompt_service Some world_update_swap split: response.splits)
    also have "\<dots> = body' (service w (calls w1))"
      unfolding body'_def sv
      by (rule override_structureItem) (rule assms)
    also have "\<dots> = (res, w3\<lparr>service := sv\<rparr>)" by (simp add: bb b)
    also have "w3\<lparr>service := sv\<rparr> = answering ov w3"
      using answering_same_service[OF s3, of ov] by (simp add: sv_def)
    finally show ?thesis by (simp add: a b)
  qed
qed

lemma generateLoop_answering:
  assumes "\<And>n k. k \<in> fst ` set (ov n) \<Longrightarrow> authoritative options k"
  shows "generateLoop options n (answering ov w)
       = (fst (generateLoop options n w), answering ov (snd (generateLoop options n w)))"
proof (induction n arbitrary: w)
  case 0
  then show ?case by simp
next
  case (Suc n)
  show ?case
    by (simp add: attempt_answering[OF assms] Suc.IH split_beta)
qed

lemmas pipeline_defs =
  generateLoot_def attempt_def structureItem_def generatePrompt_def
  resolveSubType_def getRandomSubType_def subTypes_def transformToStructuredStats_def
  generateStatsForType_def Math_random_def randomInRange_def
  orElse_def getProp_def pick_def rangeOf_def mk_def LootItemSchema_def ItemStatsSchema_def z_object_def
  WeaponStatsSchema_def ArmorStatsSchema_def AccessoryStatsSchema_def ConsumableStatsSchema_def
  MaterialStatsSchema_def BaseStatsSchema_def optional_def SubTypeSchema_def nativeEnum_def
  WeaponSubType_def ArmorSubType_def AccessorySubType_def ConsumableSubType_def MaterialSubType_def
  ItemTypeEnum_def LootTierEnum_def allTypes_def allTiers_def RaritySchema_def z_array_def
  MagicalPropertySchema_def answering_def steady_def



lemma attempt_stats:
  assumes "attempt options w = (Some item, w')" and "opt_itemType options = Some t"
  shows "\<exists>g w3. random w3 = random w
     \<and> ItemStatsSchema (fst (transformToStructuredStats (getProp g ''stats'')
           (JStr (typeValue t)) (opt_tier options) w3)) = Some (stats item)"
proof -
  from assms obtain w1 where gp: "generatePrompt options w = Some w1"
    unfolding attempt_def by (auto split: option.splits)
  define w2 where "w2 = w1\<lparr>calls := Suc (calls w1)\<rparr>"
  from assms gp obtain g where resp: "service w1 (calls w1) = Parsed g"
    and g: "g \<noteq> JNull" "g \<noteq> JUndefined"
    unfolding attempt_def structureItem_def Let_def by (auto split: response.splits if_splits)
  define ty where "ty = JStr (typeValue t)"
  from assms gp resp g obtain st w3 where rs: "resolveSubType options g ty w2 = Some (st, w3)"
    unfolding attempt_def structureItem_def Let_def w2_def ty_def by (auto split: option.splits)
  obtain s w4 where ts: "transformToStructuredStats (getProp g ''stats'') ty (opt_tier options) w3 = (s, w4)"
    by (cases "transformToStructuredStats (getProp g ''stats'') ty (opt_tier options) w3")
  obtain r w5 where mr: "Math_random w4 = (r, w5)" by (cases "Math_random w4")
  have rw: "random w3 = random w"
    using generatePrompt_frame[OF gp] resolveSubType_frame[OF rs] by (simp add: w2_def)
  define band where "band = getRarityRange (opt_tier options)"
  define base where "base = [(''type'', ty), (''tier'', JStr (tierValue (opt_tier options))),
     (''subType'', st), (''stats'', s),
     (''rarity'', JNum (real_of_int \<lfloor>r * (rmax band - rmin band + 1) + rmin band\<rfloor>))] @ ownProps g"
  define kvs where "kvs = (if truthy (optStr (opt_setName options))
       then (''setName'', optStr (opt_setName options)) # base else base)"
  have item: "LootItemSchema (JObj kvs) = Some item"
    using assms gp resp g rs ts mr
    unfolding attempt_def structureItem_def Let_def w2_def ty_def kvs_def base_def band_def
    by (simp split: if_splits)
  have "getProp (JObj kvs) ''stats'' = s" by (simp add: kvs_def base_def)
  with LootItemSchema_SomeD(6)[OF item] have "ItemStatsSchema s = Some (stats item)" by simp
  with ts rw show ?thesis unfolding ty_def by (metis fst_conv)
qed



subsection \<open>What the schema returns, it accepts\<close>

lemma optNumbers_values:
  "optNumbers ks v = Some out \<Longrightarrow> (k, y) \<in> set out \<Longrightarrow> \<exists>x. y = JNum x"
  by (induction ks arbitrary: out) (auto split: jv.splits)

lemma optNumbers_accepts:
  "(\<And>k. getProp v k = JUndefined \<or> (\<exists>x. getProp v k = JNum x)) \<Longrightarrow> optNumbers ks v \<noteq> None"
proof (induction ks)
  case Nil
  then show ?case by simp
next
  case (Cons k ks)
  from Cons.prems[of k] Cons.IH[OF Cons.prems] show ?case by auto
qed

lemma getProp_numbers:
  assumes "\<And>k y. (k, y) \<in> set out \<Longrightarrow> \<exists>x. y = JNum x"
  shows "getProp (JObj out) k = JUndefined \<or> (\<exists>x. getProp (JObj out) k = JNum x)"
proof (cases "map_of out k")
  case None
  then show ?thesis by (simp add: getProp_def)
next
  case (Some y)
  then have "(k, y) \<in> set out" by (rule map_of_SomeD)
  with assms Some show ?thesis by (auto simp: getProp_def)
qed

text \<open>The value a field parser stores, read back as the property it becomes.\<close>

lemma parseField_again:
  assumes "parseField f v = Some r"
  shows "parseField f (case r of None \<Rightarrow> JUndefined | Some y \<Rightarrow> y) \<noteq> None"
proof (cases f)
  case ZNumber
  with assms show ?thesis by (auto split: jv.splits)
next
  case ZOptNumber
  with assms show ?thesis by (auto split: jv.splits)
next
  case (ZOptObject ks)
  show ?thesis
  proof (cases r)
    case None
    then show ?thesis by (simp add: ZOptObject)
  next
    case (Some y)
    with assms ZOptObject obtain kvs out where
      o: "optNumbers ks (JObj kvs) = Some out" and y: "y = JObj out"
      by (auto split: jv.splits)
    have "optNumbers ks (JObj out) \<noteq> None"
      by (rule optNumbers_accepts) (rule getProp_numbers, erule optNumbers_values[OF o])
    then show ?thesis by (auto simp: ZOptObject Some y)
  qed
qed

lemma parseProps_keys:
  "parseProps fs v = Some out \<Longrightarrow> k \<notin> fst ` set fs \<Longrightarrow> map_of out k = None"
proof (induction fs arbitrary: out)
  case Nil
  then show ?case by simp
next
  case (Cons a fs)
  obtain k' f where a: "a = (k', f)" by (cases a)
  from Cons.prems a show ?case
    by (auto split: option.splits simp: Cons.IH)
qed

lemma parseProps_lookup:
  "distinct (map fst fs) \<Longrightarrow> parseProps fs v = Some out \<Longrightarrow> (k, f) \<in> set fs \<Longrightarrow>
     parseField f (getProp v k) = Some (map_of out k)"
proof (induction fs arbitrary: out)
  case Nil
  then show ?case by simp
next
  case (Cons a fs)
  obtain k' f' where a: "a = (k', f')" by (cases a)
  from Cons.prems(2) a obtain r rest where
    r: "parseField f' (getProp v k') = Some r" and rest: "parseProps fs v = Some rest"
    and out: "out = (case r of None \<Rightarrow> [] | Some x \<Rightarrow> [(k', x)]) @ rest"
    by (auto split: option.splits)
  from Cons.prems(1) a have nk: "k' \<notin> fst ` set fs" and d: "distinct (map fst fs)" by auto
  show ?case
  proof (cases "(k, f) = (k', f')")
    case True
    with r out parseProps_keys[OF rest nk] show ?thesis
      by (auto split: option.splits)
  next
    case False
    with Cons.prems(3) a have m: "(k, f) \<in> set fs" by auto
    with nk have "k \<noteq> k'" by force
    with Cons.IH[OF d rest m] out show ?thesis by (auto split: option.splits)
  qed
qed

lemma parseProps_accepts:
  "(\<And>k f. (k, f) \<in> set fs \<Longrightarrow> parseField f (getProp v k) \<noteq> None) \<Longrightarrow> parseProps fs v \<noteq> None"
proof (induction fs)
  case Nil
  then show ?case by simp
next
  case (Cons a fs)
  obtain k f where a: "a = (k, f)" by (cases a)
  have "parseField f (getProp v k) \<noteq> None" using Cons.prems[of k f] a by simp
  moreover have "parseProps fs v \<noteq> None" using Cons.IH Cons.prems by simp
  ultimately show ?case by (auto simp: a)
qed

lemma z_object_again:
  assumes "distinct (map fst shape)" and "z_object shape v = Some out"
  shows "z_object shape out \<noteq> None"
proof -
  from assms(2) obtain kvs where p: "parseProps shape v = Some kvs" and out: "out = JObj kvs"
    unfolding z_object_def by (auto split: if_splits)
  have "parseProps shape (JObj kvs) \<noteq> None"
  proof (rule parseProps_accepts)
    fix k f
    assume "(k, f) \<in> set shape"
    from parseProps_lookup[OF assms(1) p this]
    have "parseField f (getProp v k) = Some (map_of kvs k)" .
    from parseField_again[OF this]
    show "parseField f (getProp (JObj kvs) k) \<noteq> None"
      by (simp add: getProp_def)
  qed
  then show ?thesis by (simp add: z_object_def out)
qed

lemma ItemStatsSchema_again:
  assumes "ItemStatsSchema v = Some out"
  shows "ItemStatsSchema out \<noteq> None"
proof -
  let ?shapes = "[WeaponStatsSchema, ArmorStatsSchema, AccessoryStatsSchema,
                  ConsumableStatsSchema, MaterialStatsSchema]"
  have u: "ItemStatsSchema = z_union (map z_object ?shapes)"
    by (simp add: ItemStatsSchema_def)
  from assms obtain p where "p \<in> set (map z_object ?shapes)" "p v = Some out"
    unfolding u by (blast dest: z_union_Some)
  then obtain shape where s: "shape \<in> set ?shapes" and o: "z_object shape v = Some out"
    by auto
  from s have "distinct (map fst shape)"
    by (auto simp: WeaponStatsSchema_def ArmorStatsSchema_def AccessoryStatsSchema_def
        ConsumableStatsSchema_def MaterialStatsSchema_def BaseStatsSchema_def)
  from z_object_again[OF this o] have "z_object shape out \<noteq> None" .
  moreover from s have "z_object shape \<in> set (map z_object ?shapes)"
    unfolding set_map by (rule imageI)
  ultimately show ?thesis unfolding u by (rule z_union_accepts[rotated])
qed

lemma MagicalPropertySchema_propertyObject [simp]:
  "MagicalPropertySchema (propertyObject p) = Some p"
  by (cases "magnitude p") (simp_all add: MagicalPropertySchema_def propertyObject_def optional_def)

lemma those_map_Some [simp]: "those (map Some xs) = Some xs"
  by (induction xs) auto

lemma z_array_propertyObjects [simp]:
  "z_array MagicalPropertySchema (JArr (map propertyObject ps)) = Some ps"
  by (simp add: z_array_def comp_def)

lemma LootItemSchema_again:
  assumes "LootItemSchema v = Some item"
  shows "LootItemSchema (itemObject item) \<noteq> None"
proof -
  note d = LootItemSchema_SomeD[OF assms]
  from ItemStatsSchema_again[OF d(6)] obtain s where s: "ItemStatsSchema (stats item) = Some s"
    by auto
  from RaritySchema_Some[OF d(10)] have r: "RaritySchema (JNum (rarity item)) = Some (rarity item)"
    by (simp add: RaritySchema_def)
  have m: "optional (z_array MagicalPropertySchema)
        (case magicalProperties item of None \<Rightarrow> JUndefined | Some ps \<Rightarrow> JArr (map propertyObject ps))
      = Some (magicalProperties item)"
    by (cases "magicalProperties item") (simp_all add: optional_def)
  have l: "optional z_string (optStr x) = Some x" for x
    by (cases x) (simp_all add: optional_def)
  show ?thesis
    by (simp add: LootItemSchema_def itemObject_def getProp_def s r m l)
qed

subsection \<open>The loop\<close>

lemma length_outcomes [simp]: "length (outcomes options n w) = n"
  by (induction n arbitrary: w) simp_all

lemma generateLoop_outcomes:
  "fst (generateLoop options n w)
     = concat (map (\<lambda>r. case r of None \<Rightarrow> [] | Some item \<Rightarrow> [item]) (outcomes options n w))"
  by (induction n arbitrary: w) (simp_all add: split_beta)

lemma length_generateLoop: "length (fst (generateLoop options n w)) \<le> n"
proof (induction n arbitrary: w)
  case 0
  then show ?case by simp
next
  case (Suc n)
  have "length (fst (generateLoop options (Suc n) w))
      \<le> 1 + length (fst (generateLoop options n (snd (attempt options w))))"
    by (simp add: split_beta split: option.splits)
  with Suc.IH[of "snd (attempt options w)"] show ?case by simp
qed

lemma structureItem_name:
  assumes "structureItem options g w = (Some item, w')"
  shows "z_string (getProp g ''name'') = Some (name item)"
proof -
  from assms obtain kvs where v: "LootItemSchema (JObj kvs) = Some item"
    and n: "getProp (JObj kvs) ''name'' = getProp (JObj (ownProps g)) ''name''"
    unfolding structureItem_def Let_def
    by (auto split: if_splits option.splits prod.splits)
  have "getProp (JObj (ownProps g)) ''name'' = getProp g ''name''" by (simp add: getProp_def)
  with LootItemSchema_SomeD(1)[OF v] n show ?thesis by simp
qed

lemma attempt_fails:
  assumes "service w (calls w) = Rejected \<or> service w (calls w) = Malformed
         \<or> (\<exists>g. service w (calls w) = Parsed g \<and> z_string (getProp g ''name'') = None)"
  shows "fst (attempt options w) = None"
proof (cases "generatePrompt options w")
  case None
  then show ?thesis by (simp add: attempt_def)
next
  case (Some w1)
  from generatePrompt_frame[OF Some] have f: "service w1 = service w" "calls w1 = calls w"
    by simp_all
  show ?thesis
  proof (rule ccontr)
    assume "fst (attempt options w) \<noteq> None"
    then obtain item w' where a: "attempt options w = (Some item, w')"
      by (cases "attempt options w") auto
    then obtain g where g: "service w (calls w) = Parsed g"
      and s: "structureItem options g (w1\<lparr>calls := Suc (calls w1)\<rparr>) = (Some item, w')"
      unfolding attempt_def Let_def by (auto simp: Some f split: response.splits)
    from structureItem_name[OF s] g assms show False by auto
  qed
qed

lemma map_successes:
  "map g (concat (map (\<lambda>r. case r of None \<Rightarrow> [] | Some item \<Rightarrow> [item]) rs))
     = concat (map (\<lambda>r. case r of None \<Rightarrow> [] | Some x \<Rightarrow> [x]) (map (map_option g) rs))"
  by (induction rs) (auto split: option.splits)

text \<open>
  Claim C3: \<^verbatim>\<open>generateLoot\<close> runs \<open>count\<close> iterations (none when \<open>count\<close> is not
  positive), whatever their outcomes; the returned list is exactly the items of the
  successful iterations, in iteration order, so it is no longer than \<open>count\<close>; every
  returned item validates against \<^verbatim>\<open>LootItemSchema\<close>; and an iteration whose service
  call is rejected, whose content is not JSON, or whose response fails validation (here: has
  no string name) contributes no item.
\<close>

theorem C3_partial_failure:
  "length (outcomes options (nat (opt_count options)) w) = nat (opt_count options)
   \<and> fst (generateLoot options w)
       = concat (map (\<lambda>r. case r of None \<Rightarrow> [] | Some item \<Rightarrow> [item])
                     (outcomes options (nat (opt_count options)) w))
   \<and> length (fst (generateLoot options w)) \<le> nat (opt_count options)
   \<and> (0 \<le> opt_count options \<longrightarrow>
        int (length (fst (generateLoot options w))) \<le> opt_count options)
   \<and> (\<forall>item \<in> set (fst (generateLoot options w)). LootItemSchema (itemObject item) \<noteq> None)
   \<and> (service w0 (calls w0) = Rejected \<or> service w0 (calls w0) = Malformed
        \<or> (\<exists>g. service w0 (calls w0) = Parsed g \<and> z_string (getProp g ''name'') = None)
       \<longrightarrow> fst (attempt options w0) = None)"
proof (intro conjI ballI impI)
  show "length (outcomes options (nat (opt_count options)) w) = nat (opt_count options)"
    by simp
  show "fst (generateLoot options w)
       = concat (map (\<lambda>r. case r of None \<Rightarrow> [] | Some item \<Rightarrow> [item])
                     (outcomes options (nat (opt_count options)) w))"
    unfolding generateLoot_def by (rule generateLoop_outcomes)
  show l: "length (fst (generateLoot options w)) \<le> nat (opt_count options)"
    unfolding generateLoot_def by (rule length_generateLoop)
  show "int (length (fst (generateLoot options w))) \<le> opt_count options"
    if "0 \<le> opt_count options"
    using l that by linarith
  show "LootItemSchema (itemObject item) \<noteq> None"
    if "item \<in> set (fst (generateLoot options w))" for item
  proof -
    from that obtain w1 w2 where a: "attempt options w1 = (Some item, w2)"
      unfolding generateLoot_def by (blast dest: generateLoop_member)
    from attempt_SomeD[OF a] obtain kvs where "LootItemSchema (JObj kvs) = Some item" by blast
    then show ?thesis by (rule LootItemSchema_again)
  qed
  show "fst (attempt options w0) = None"
    if "service w0 (calls w0) = Rejected \<or> service w0 (calls w0) = Malformed
        \<or> (\<exists>g. service w0 (calls w0) = Parsed g \<and> z_string (getProp g ''name'') = None)"
    using that by (rule attempt_fails)
qed

theorem C3_partial_failure_witness:
  "0 \<le> opt_count bronzeWeapons
   \<and> service (steady (1/2) partialFailures) (calls (steady (1/2) partialFailures)) = Rejected
   \<and> fst (attempt bronzeWeapons (steady (1/2) partialFailures)) = None
   \<and> map name (fst (generateLoot bronzeWeapons (steady (1/2) partialFailures)))
       = [''Success Item 1'', ''Success Item 2'']
   \<and> map (map_option name) (outcomes bronzeWeapons 4 (steady (1/2) partialFailures))
       = [None, Some ''Success Item 1'', None, Some ''Success Item 2'']
   \<and> int (length (fst (generateLoot bronzeWeapons (steady (1/2) partialFailures)))) \<le> 4
   \<and> list_all (\<lambda>item. LootItemSchema (itemObject item) \<noteq> None)
        (fst (generateLoot bronzeWeapons (steady (1/2) partialFailures)))"
proof -
  let ?w = "steady (1/2) partialFailures"
  have c: "opt_count bronzeWeapons = 4" by (simp add: bronzeWeapons_def)
  have r: "service ?w (calls ?w) = Rejected" by (simp add: steady_def partialFailures_def)
  have "map (map_option name) (outcomes bronzeWeapons (Suc (Suc (Suc (Suc 0)))) ?w)
          = [None, Some ''Success Item 1'', None, Some ''Success Item 2'']"
    by (simp add: pipeline_defs bronzeWeapons_def partialFailures_def successItem_def)
  then have o: "map (map_option name) (outcomes bronzeWeapons 4 ?w)
          = [None, Some ''Success Item 1'', None, Some ''Success Item 2'']"
    by (simp add: numeral_eq_Suc)
  note t = C3_partial_failure[of bronzeWeapons ?w ?w]
  from t have "map name (fst (generateLoot bronzeWeapons ?w))
      = map name (concat (map (\<lambda>r. case r of None \<Rightarrow> [] | Some item \<Rightarrow> [item])
                     (outcomes bronzeWeapons 4 ?w)))"
    by (simp add: c)
  then have e: "map name (fst (generateLoot bronzeWeapons ?w))
          = [''Success Item 1'', ''Success Item 2'']"
    unfolding map_successes o by simp
  from e have "length (map name (fst (generateLoot bronzeWeapons ?w))) = 2" by simp
  then have l: "length (fst (generateLoot bronzeWeapons ?w)) = 2" by simp
  from t r have f: "fst (attempt bronzeWeapons ?w) = None" by blast
  from t have v: "list_all (\<lambda>item. LootItemSchema (itemObject item) \<noteq> None)
        (fst (generateLoot bronzeWeapons ?w))"
    unfolding list_all_iff by blast
  from c r f e o l v show ?thesis by simp
qed

subsection \<open>Service calls\<close>

lemma getRandomSubType_typeValue:
  "\<exists>v w'. getRandomSubType (JStr (typeValue t)) w = Some (v, w')"
  by (cases t) (simp_all add: getRandomSubType_def subTypes_def Let_def split_beta)

lemma generatePrompt_succeeds:
  assumes "truthy (optStr (opt_subType options)) \<or> opt_itemType options \<noteq> None"
  shows "\<exists>w1. generatePrompt options w = Some w1"
proof (cases "truthy (optStr (opt_subType options))")
  case True
  then show ?thesis by (simp add: generatePrompt_def)
next
  case False
  with assms obtain t where "opt_itemType options = Some t" by auto
  with getRandomSubType_typeValue[of t w] False show ?thesis
    by (auto simp: generatePrompt_def)
qed

lemma attempt_calls:
  assumes "truthy (optStr (opt_subType options)) \<or> opt_itemType options \<noteq> None"
  shows "calls (snd (attempt options w)) = Suc (calls w)"
proof -
  from generatePrompt_succeeds[OF assms] obtain w1 where gp: "generatePrompt options w = Some w1"
    by blast
  from generatePrompt_frame[OF gp] have c: "calls w1 = calls w" by simp
  have s: "calls (snd (structureItem options g v)) = calls v" for g v
    using structureItem_frame[of options g v] by (cases "structureItem options g v") simp
  show ?thesis
    unfolding attempt_def Let_def gp
    by (simp add: s c split: response.splits)
qed

lemma generateLoop_calls:
  assumes "truthy (optStr (opt_subType options)) \<or> opt_itemType options \<noteq> None"
  shows "calls (snd (generateLoop options n w)) = calls w + n"
  by (induction n arbitrary: w) (simp_all add: split_beta attempt_calls[OF assms])




subsection \<open>Sets\<close>

lemma generateLootSet_step:
  "generateLootSet sn t (itemType # itemTypes) model w =
     (fst (generateLoot (setOptions sn t model itemType) w)
        @ fst (generateLootSet sn t itemTypes model
                 (snd (generateLoot (setOptions sn t model itemType) w))),
      snd (generateLootSet sn t itemTypes model
             (snd (generateLoot (setOptions sn t model itemType) w))))"
  by (simp add: setOptions_def split_beta Let_def)

lemma generateLoot_once:
  "opt_count options = 1 \<Longrightarrow>
     generateLoot options w
       = ((case fst (attempt options w) of None \<Rightarrow> [] | Some item \<Rightarrow> [item]),
          snd (attempt options w))"
  by (simp add: generateLoot_def split_beta)

lemma generateLoot_set_single:
  "fst (generateLoot (setOptions sn t model itemType) w) = []
   \<or> (\<exists>item. fst (generateLoot (setOptions sn t model itemType) w) = [item]
         \<and> type item = itemType \<and> tier item = t \<and> (sn \<noteq> [] \<longrightarrow> setName item = Some sn))"
proof (cases "fst (attempt (setOptions sn t model itemType) w)")
  case None
  then show ?thesis by (simp add: generateLoot_once setOptions_def)
next
  case (Some item)
  then have a: "attempt (setOptions sn t model itemType) w
       = (Some item, snd (attempt (setOptions sn t model itemType) w))"
    by (metis prod.collapse)
  have "fst (generateLoot (setOptions sn t model itemType) w) = [item]"
    using Some by (subst generateLoot_once) (simp_all add: setOptions_def)
  moreover from attempt_fields(1,2,4)[OF a]
  have "type item = itemType \<and> tier item = t \<and> (sn \<noteq> [] \<longrightarrow> setName item = Some sn)"
    by (simp add: setOptions_def)
  ultimately show ?thesis by blast
qed

lemma generateLoot_set_calls:
  "calls (snd (generateLoot (setOptions sn t model itemType) w)) = Suc (calls w)"
  unfolding generateLoot_def
  by (subst generateLoop_calls) (simp_all add: setOptions_def)

lemma generateLootSet_props:
  "calls (snd (generateLootSet sn t itemTypes model w)) = calls w + length itemTypes
   \<and> subseq (map type (fst (generateLootSet sn t itemTypes model w))) itemTypes
   \<and> (\<forall>item \<in> set (fst (generateLootSet sn t itemTypes model w)).
         tier item = t \<and> (sn \<noteq> [] \<longrightarrow> setName item = Some sn))"
proof (induction itemTypes arbitrary: w)
  case Nil
  then show ?case by simp
next
  case (Cons itemType itemTypes)
  let ?w' = "snd (generateLoot (setOptions sn t model itemType) w)"
  note ih = Cons.IH[of ?w']
  note st = generateLootSet_step[of sn t itemType itemTypes model w]
  from generateLoot_set_single[of sn t model itemType w] show ?case
  proof
    assume "fst (generateLoot (setOptions sn t model itemType) w) = []"
    with ih show ?thesis
      by (simp add: st generateLoot_set_calls list_emb_Cons del: generateLootSet.simps)
  next
    assume "\<exists>item. fst (generateLoot (setOptions sn t model itemType) w) = [item]
         \<and> type item = itemType \<and> tier item = t \<and> (sn \<noteq> [] \<longrightarrow> setName item = Some sn)"
    then obtain item where "fst (generateLoot (setOptions sn t model itemType) w) = [item]"
      "type item = itemType" "tier item = t" "sn \<noteq> [] \<longrightarrow> setName item = Some sn" by blast
    with ih show ?thesis
      by (simp add: st generateLoot_set_calls del: generateLootSet.simps)
  qed
qed

text \<open>
  Claim C7, as stated: for every set name, every item that \<^verbatim>\<open>generateLootSet\<close> returns
  carries the requested set name. It fails for the empty set name, which the code takes as
  no set name: the item keeps the set name of the model's response.
\<close>

theorem C7_empty_set_name:
  "map setName (fst (generateLootSet [] GOLD [WEAPON] None (answers mislabelled)))
     = [Some ''Frost'']"
  by (simp add: pipeline_defs answers_def mislabelled_def)

text \<open>
  Claim C7, amended: for every tier and ordered list of item types, \<^verbatim>\<open>generateLootSet\<close>
  issues one \<^verbatim>\<open>generateLoot\<close> call per item type, with count 1 and the shared set name
  and tier, each of which calls the service once; it returns the concatenation of their
  results in the order of the list, skipping the item types whose attempt produced no
  item; every returned item has the requested tier and, for every non-empty set name, the
  requested set name.
\<close>

theorem C7_set_coordination:
  "generateLootSet sn t [] model w = ([], w)
   \<and> generateLootSet sn t (itemType # itemTypes) model w =
       (fst (generateLoot \<lparr>opt_tier = t, opt_count = 1, opt_itemType = Some itemType,
                           opt_subType = None, opt_setName = Some sn, opt_model = model\<rparr> w)
          @ fst (generateLootSet sn t itemTypes model
                   (snd (generateLoot \<lparr>opt_tier = t, opt_count = 1, opt_itemType = Some itemType,
                           opt_subType = None, opt_setName = Some sn, opt_model = model\<rparr> w))),
        snd (generateLootSet sn t itemTypes model
               (snd (generateLoot \<lparr>opt_tier = t, opt_count = 1, opt_itemType = Some itemType,
                           opt_subType = None, opt_setName = Some sn, opt_model = model\<rparr> w))))
   \<and> calls (snd (generateLootSet sn t itemTypes model w)) = calls w + length itemTypes
   \<and> subseq (map type (fst (generateLootSet sn t itemTypes model w))) itemTypes
   \<and> length (fst (generateLootSet sn t itemTypes model w)) \<le> length itemTypes
   \<and> (\<forall>item \<in> set (fst (generateLootSet sn t itemTypes model w)).
         tier item = t \<and> (sn \<noteq> [] \<longrightarrow> setName item = Some sn))"
proof -
  note p = generateLootSet_props[of sn t itemTypes model w]
  from p have "subseq (map type (fst (generateLootSet sn t itemTypes model w))) itemTypes"
    by blast
  from list_emb_length[OF this]
  have "length (fst (generateLootSet sn t itemTypes model w)) \<le> length itemTypes" by simp
  with p generateLootSet_step[of sn t itemType itemTypes model w] show ?thesis
    by (simp add: setOptions_def del: generateLootSet.simps(2))
qed

theorem C7_set_coordination_witness:
  "''Dragon Slayer'' \<noteq> []
   \<and> map type (fst (generateLootSet ''Dragon Slayer'' LEGENDARY [WEAPON, ARMOR, ACCESSORY] None
                     (steady (1/2) secondRejected))) = [WEAPON, ACCESSORY]
   \<and> map setName (fst (generateLootSet ''Dragon Slayer'' LEGENDARY [WEAPON, ARMOR, ACCESSORY] None
                     (steady (1/2) secondRejected)))
       = [Some ''Dragon Slayer'', Some ''Dragon Slayer'']
   \<and> map tier (fst (generateLootSet ''Dragon Slayer'' LEGENDARY [WEAPON, ARMOR, ACCESSORY] None
                     (steady (1/2) secondRejected))) = [LEGENDARY, LEGENDARY]
   \<and> calls (snd (generateLootSet ''Dragon Slayer'' LEGENDARY [WEAPON, ARMOR, ACCESSORY] None
                     (steady (1/2) secondRejected))) = 3"
proof -
  let ?r = "generateLootSet ''Dragon Slayer'' LEGENDARY [WEAPON, ARMOR, ACCESSORY] None
              (steady (1/2) secondRejected)"
  have e: "map type (fst ?r) = [WEAPON, ACCESSORY]"
    by (simp add: pipeline_defs secondRejected_def successItem_def)
  then obtain i1 i2 where i: "fst ?r = [i1, i2]" by auto
  have c: "calls (steady (1/2) secondRejected) = 0" by (simp add: steady_def)
  from C7_set_coordination[of "''Dragon Slayer''" LEGENDARY None "steady (1/2) secondRejected"
      WEAPON "[WEAPON, ARMOR, ACCESSORY]"] e i c
  show ?thesis by simp
qed

subsection \<open>Merging the model's stats with the baseline\<close>

lemma getProp_merged:
  "getProp (JObj (ownProps aiStats @ baseline)) k = preferModel aiStats baseline k"
  by (simp add: getProp_def preferModel_def map_add_def split: option.splits)

lemma transform_field:
  assumes "blockKeys itemType k"
  shows "flatStat itemType (fst (transformToStructuredStats aiStats itemType t w)) k
       = (if guarded itemType k
             \<and> \<not> truthy (preferModel aiStats (fst (generateStatsForType itemType t w)) k)
          then getProp (JObj (fst (generateStatsForType itemType t w))) k
          else preferModel aiStats (fst (generateStatsForType itemType t w)) k)"
proof -
  note b = split_beta Let_def
  consider "itemType = JStr ''Weapon''" | "itemType = JStr ''Armor''"
    | "itemType = JStr ''Accessory''" | "itemType = JStr ''Consumable''"
    | "itemType = JStr ''Material''"
    | "itemType \<noteq> JStr ''Weapon''" "itemType \<noteq> JStr ''Armor''" "itemType \<noteq> JStr ''Accessory''"
      "itemType \<noteq> JStr ''Consumable''" "itemType \<noteq> JStr ''Material''"
    by blast
  then show ?thesis
  proof cases
    case 1
    with assms show ?thesis
      by (auto simp: transformToStructuredStats_def b blockKeys_def flatStat_def guarded_def
          pick_def orElse_def getProp_merged)
  next
    case 2
    with assms show ?thesis
      by (auto simp: transformToStructuredStats_def b blockKeys_def flatStat_def guarded_def
          pick_def orElse_def getProp_merged)
  next
    case 3
    with assms show ?thesis
      by (auto simp: transformToStructuredStats_def b blockKeys_def flatStat_def guarded_def
          pick_def orElse_def getProp_merged)
  next
    case 4
    with assms show ?thesis
      by (auto simp: transformToStructuredStats_def b blockKeys_def flatStat_def guarded_def
          pick_def orElse_def getProp_merged)
  next
    case 5
    with assms show ?thesis
      by (auto simp: transformToStructuredStats_def b blockKeys_def flatStat_def guarded_def
          pick_def orElse_def getProp_merged)
  next
    case 6
    then show ?thesis
      by (simp add: transformToStructuredStats_def b flatStat_def guarded_def getProp_merged)
  qed
qed




subsection \<open>Rounding\<close>

lemma randomInRange_decimals: "fst (randomInRange rg w) * 100 \<in> \<int>"
  by (simp add: randomInRange_def split_beta)

lemma rollStats_rounded:
  assumes "\<And>k rg b. (k, rg, b) \<in> set fs \<Longrightarrow> \<not> b \<Longrightarrow> k = ''range'' \<or> k = ''weight''"
    and "(k, v) \<in> set (fst (rollStats fs w))"
  shows "\<exists>x. v = JNum x \<and> x * 100 \<in> \<int> \<and> (k \<noteq> ''range'' \<and> k \<noteq> ''weight'' \<longrightarrow> x \<in> \<int>)"
  using assms
proof (induction fs arbitrary: w)
  case Nil
  then show ?case by simp
next
  case (Cons f fs)
  obtain k' rg b where f: "f = (k', rg, b)" by (cases f)
  let ?x = "fst (randomInRange rg w)" and ?w' = "snd (randomInRange rg w)"
  from Cons.prems(2) f
  have "(k, v) = (k', JNum (if b then real_of_int (round ?x) else ?x))
        \<or> (k, v) \<in> set (fst (rollStats fs ?w'))"
    by (auto simp: split_beta Let_def)
  then show ?case
  proof
    assume e: "(k, v) = (k', JNum (if b then real_of_int (round ?x) else ?x))"
    show ?thesis
    proof (cases b)
      case True
      with e show ?thesis by simp
    next
      case False
      with e randomInRange_decimals[of rg w] Cons.prems(1)[of k' rg b] f show ?thesis by auto
    qed
  next
    assume "(k, v) \<in> set (fst (rollStats fs ?w'))"
    with Cons.IH[of ?w'] Cons.prems(1) show ?thesis by auto
  qed
qed

lemma generateStatsForType_rounded:
  assumes "(k, v) \<in> set (fst (generateStatsForType itemType t w))"
  shows "\<exists>x. v = JNum x \<and> x * 100 \<in> \<int> \<and> (k \<noteq> ''range'' \<and> k \<noteq> ''weight'' \<longrightarrow> x \<in> \<int>)"
  using assms unfolding generateStatsForType_def Let_def
  by (auto split: if_splits simp del: rollStats.simps elim!: rollStats_rounded[rotated])




subsection \<open>Saving\<close>

lemma saveItem_item:
  "fst (snd (saveItem digest ckey now db item))
     = item\<lparr>magicalProperties := map_option (sortByName ckey) (magicalProperties item)\<rparr>"
  by (simp add: saveItem_def generateHash_def Let_def split: option.splits)

text \<open>
  Claim C10: \<^verbatim>\<open>saveItem\<close> leaves the caller's item with its magical properties sorted by
  name (a reordering of the list it was given), whether the item is new or a duplicate,
  and with every other field unchanged.
\<close>

theorem C10_saveItem_sorts_input:
  "fst (snd (saveItem digest ckey now db item))
     = item\<lparr>magicalProperties := map_option (sortByName ckey) (magicalProperties item)\<rparr>
   \<and> (\<forall>ps. magicalProperties item = Some ps \<longrightarrow>
        (\<exists>ps'. magicalProperties (fst (snd (saveItem digest ckey now db item))) = Some ps'
           \<and> sorted (map (\<lambda>p. ckey (mp_name p)) ps') \<and> mset ps' = mset ps))
   \<and> name (fst (snd (saveItem digest ckey now db item))) = name item
   \<and> type (fst (snd (saveItem digest ckey now db item))) = type item
   \<and> subType (fst (snd (saveItem digest ckey now db item))) = subType item
   \<and> tier (fst (snd (saveItem digest ckey now db item))) = tier item
   \<and> description (fst (snd (saveItem digest ckey now db item))) = description item
   \<and> stats (fst (snd (saveItem digest ckey now db item))) = stats item
   \<and> lore (fst (snd (saveItem digest ckey now db item))) = lore item
   \<and> setName (fst (snd (saveItem digest ckey now db item))) = setName item
   \<and> rarity (fst (snd (saveItem digest ckey now db item))) = rarity item"
  by (simp add: saveItem_item sortByName_def)

theorem C10_saveItem_sorts_input_witness:
  "magicalProperties (sword [sharpness, flame] 45) = Some [sharpness, flame]
   \<and> magicalProperties
        (fst (snd (saveItem plainDigest codePoints ''2024-01-01'' emptyDb
                     (sword [sharpness, flame] 45))))
       = Some [flame, sharpness]"
proof -
  have s: "sortByName codePoints [sharpness, flame] = [flame, sharpness]"
    by (simp add: sortByName_def codePoints_def sharpness_def flame_def)
  from C10_saveItem_sorts_input[of plainDigest codePoints "''2024-01-01''" emptyDb
      "sword [sharpness, flame] 45"] s
  show ?thesis by (simp add: sword_def)
qed

lemma filter_key_distinct:
  "distinct (map f zs) \<Longrightarrow> k \<in> set zs \<Longrightarrow> filter (\<lambda>x. f k = f x) zs = [k]"
proof (induction zs)
  case Nil
  then show ?case by simp
next
  case (Cons z zs)
  show ?case
  proof (cases "k = z")
    case True
    with Cons.prems(1) have "\<And>x. x \<in> set zs \<Longrightarrow> f z \<noteq> f x" by auto
    then have "filter (\<lambda>x. f z = f x) zs = []" by (simp add: filter_empty_conv)
    with True show ?thesis by simp
  next
    case False
    with Cons.prems have k: "k \<in> set zs" and d: "distinct (map f zs)" by auto
    from Cons.prems(1) have "f z \<notin> f ` set zs" by simp
    with k have "f k \<noteq> f z" by (metis imageI)
    with Cons.IH[OF d k] show ?thesis by simp
  qed
qed

lemma sort_key_reordered:
  assumes "mset xs = mset ys" and "distinct (map f xs)"
  shows "sort_key f xs = sort_key f ys"
proof (rule properties_for_sort_key)
  show "mset (sort_key f ys) = mset xs" using assms(1) by simp
  show "sorted (map f (sort_key f ys))" by simp
  fix k
  assume "k \<in> set (sort_key f ys)"
  then have ky: "k \<in> set ys" by simp
  with assms(1) have kx: "k \<in> set xs" by (metis mset_eq_setD)
  have "mset (map f (sort_key f ys)) = mset (map f xs)" using assms(1) by simp
  with assms(2) have d: "distinct (map f (sort_key f ys))"
    by (metis mset_eq_imp_distinct_iff)
  from ky have ks: "k \<in> set (sort_key f ys)" by simp
  show "filter (\<lambda>x. f k = f x) (sort_key f ys) = filter (\<lambda>x. f k = f x) xs"
    by (simp only: filter_key_distinct[OF d ks] filter_key_distinct[OF assms(2) kx])
qed

lemma generateHash_agree:
  assumes "name a = name b" "type a = type b" "subType a = subType b" "tier a = tier b"
    "description a = description b" "stats a = stats b" "lore a = lore b" "setName a = setName b"
    and "rel_option (\<lambda>ps qs. mset ps = mset qs \<and> distinct (map (\<lambda>p. ckey (mp_name p)) ps))
           (magicalProperties a) (magicalProperties b)"
  shows "fst (generateHash digest ckey a) = fst (generateHash digest ckey b)"
proof -
  have "map_option (sortByName ckey) (magicalProperties a)
      = map_option (sortByName ckey) (magicalProperties b)"
    using assms(9)
    by (cases "magicalProperties a"; cases "magicalProperties b")
       (auto simp: sortByName_def intro: sort_key_reordered)
  with assms(1-8) show ?thesis by (simp add: generateHash_def Let_def)
qed

lemma find_snoc:
  "find P (xs @ [y]) = (case find P xs of Some x \<Rightarrow> Some x | None \<Rightarrow> if P y then Some y else None)"
  by (induction xs) auto

lemma filter_unique:
  "distinct (map f xs) \<Longrightarrow> x \<in> set xs \<Longrightarrow> length (filter (\<lambda>y. f y = f x) xs) = 1"
proof -
  assume "distinct (map f xs)" "x \<in> set xs"
  from filter_key_distinct[OF this] have "filter (\<lambda>y. f x = f y) xs = [x]" .
  moreover have "(\<lambda>y. f y = f x) = (\<lambda>y. f x = f y)" by auto
  ultimately show ?thesis by simp
qed

text \<open>Saving an item, by the hash \<open>h\<close> that \<^verbatim>\<open>generateHash\<close> gives it.\<close>

lemma saveItem_existing:
  assumes "getItemByHash db (fst (generateHash digest ckey item)) = Some e"
  shows "fst (saveItem digest ckey now db item) = Some e"
    and "snd (snd (saveItem digest ckey now db item)) = db"
  using assms by (simp_all add: saveItem_def split_beta)

lemma saveItem_new:
  assumes "getItemByHash db (fst (generateHash digest ckey item)) = None" and "tableOk db"
  shows "\<exists>row. fst (saveItem digest ckey now db item) = Some row
           \<and> snd (snd (saveItem digest ckey now db item))
               = \<lparr>items = items db @ [row], lastInsertRowid = Suc (lastInsertRowid db)\<rparr>
           \<and> hash row = fst (generateHash digest ckey item)
           \<and> id_row row = Suc (lastInsertRowid db)"
proof -
  have "find (\<lambda>row. id_row row = Suc (lastInsertRowid db)) (items db) = None"
    using assms(2) by (auto simp: tableOk_def find_None_iff list_all_iff)
  with assms(1) show ?thesis
    by (simp add: saveItem_def split_beta Let_def getItemById_def find_snoc)
qed

lemma saveItem_twice:
  assumes "tableOk db"
    and "fst (generateHash digest ckey b) = fst (generateHash digest ckey a)"
  shows "fst (saveItem digest ckey now1 db a) \<noteq> None
    \<and> fst (saveItem digest ckey now2 (snd (snd (saveItem digest ckey now1 db a))) b)
        = fst (saveItem digest ckey now1 db a)
    \<and> snd (snd (saveItem digest ckey now2 (snd (snd (saveItem digest ckey now1 db a))) b))
        = snd (snd (saveItem digest ckey now1 db a))
    \<and> length (filter (\<lambda>row. hash row = fst (generateHash digest ckey a))
                (items (snd (snd (saveItem digest ckey now1 db a))))) = 1
    \<and> tableOk (snd (snd (saveItem digest ckey now1 db a)))"
proof (cases "getItemByHash db (fst (generateHash digest ckey a))")
  case (Some e)
  note s = saveItem_existing[OF Some, of now1]
  from Some assms(2) have "getItemByHash db (fst (generateHash digest ckey b)) = Some e" by simp
  note s2 = saveItem_existing[OF this, of now2]
  from Some have e: "e \<in> set (items db)" "hash e = fst (generateHash digest ckey a)"
    by (auto simp: getItemByHash_def find_Some_iff)
  from assms(1) have "distinct (map hash (items db))" by (simp add: tableOk_def)
  from filter_unique[OF this e(1)] e(2)
  have "length (filter (\<lambda>row. hash row = fst (generateHash digest ckey a)) (items db)) = 1"
    by simp
  with s s2 assms(1) show ?thesis by simp
next
  case None
  from saveItem_new[OF None assms(1), of now1] obtain row where
    r: "fst (saveItem digest ckey now1 db a) = Some row"
    and d: "snd (snd (saveItem digest ckey now1 db a))
               = \<lparr>items = items db @ [row], lastInsertRowid = Suc (lastInsertRowid db)\<rparr>"
    and h: "hash row = fst (generateHash digest ckey a)"
    and i: "id_row row = Suc (lastInsertRowid db)" by blast
  let ?db1 = "\<lparr>items = items db @ [row], lastInsertRowid = Suc (lastInsertRowid db)\<rparr>"
  from None have n: "\<And>x. x \<in> set (items db) \<Longrightarrow> hash x \<noteq> fst (generateHash digest ckey a)"
    by (auto simp: getItemByHash_def find_None_iff)
  have "getItemByHash ?db1 (fst (generateHash digest ckey b)) = Some row"
    using None h assms(2) by (simp add: getItemByHash_def find_snoc)
  note s2 = saveItem_existing[OF this, of now2]
  have f: "filter (\<lambda>row. hash row = fst (generateHash digest ckey a)) (items db) = []"
    using n by (simp add: filter_empty_conv)
  have ok: "tableOk ?db1"
    using assms(1) n h i by (force simp: tableOk_def list_all_iff)
  from r d s2 f h ok show ?thesis by simp
qed




section \<open>Stat range tables\<close>

lemma scalesWithTier_all:
  "tierRank t \<le> tierRank t' \<Longrightarrow> scalesWithTier (statRanges ty t) (statRanges ty t')"
  by (cases ty; cases t; cases t'; simp add: scalesWithTier_def mk_def)

lemma list_all_map_of:
  "list_all P xs \<Longrightarrow> map_of xs k = Some r \<Longrightarrow> P (k, r)"
  by (induction xs) (auto split: if_splits)

text \<open>
  Claim C4, as stated: for every stat-bearing item type and every stat of its range table,
  the min and the max are non-decreasing from Bronze to Celestial. It fails at the first
  step of the weapon table: the min of \<open>weight\<close> falls from 1.0 (Bronze) to 0.8 (Silver).
\<close>

theorem C4_weight_min_decreases:
  "\<not> nonDecreasing (statRanges WEAPON BRONZE) (statRanges WEAPON SILVER)"
  by (simp add: nonDecreasing_def mk_def)

text \<open>
  Claim C4, amended: for every item type, every two tiers in Bronze-to-Celestial order and
  every stat name that both tiers' tables bind, the max is non-decreasing, and the min is
  non-decreasing for every stat other than \<open>weight\<close>; the min of \<open>weight\<close> is
  non-increasing instead (higher tiers may be lighter).
\<close>

theorem C4_stat_scaling:
  assumes "tierRank t \<le> tierRank t'"
    and "map_of (statRanges ty t) k = Some r"
    and "map_of (statRanges ty t') k = Some r'"
  shows "rmax r \<le> rmax r' \<and> (k \<noteq> ''weight'' \<longrightarrow> rmin r \<le> rmin r')
       \<and> (k = ''weight'' \<longrightarrow> rmin r' \<le> rmin r)"
  using list_all_map_of[OF scalesWithTier_all[OF assms(1), unfolded scalesWithTier_def] assms(2)]
    assms(3)
  by (auto split: if_splits)

theorem C4_stat_scaling_witness:
  "tierRank GOLD \<le> tierRank LEGENDARY \<and>
   map_of (statRanges ARMOR GOLD) ''weight'' = Some (mk 1.5 18) \<and>
   map_of (statRanges ARMOR LEGENDARY) ''weight'' = Some (mk 1 25) \<and>
   rmax (mk 1.5 18) \<le> rmax (mk 1 25) \<and> rmin (mk 1 25) \<le> rmin (mk 1.5 18)"
  using C4_stat_scaling[of GOLD LEGENDARY ARMOR "''weight''" "mk 1.5 18" "mk 1 25"]
  by (simp add: mk_def)

end
